theory Spec2Isabelle
  imports Complex_Main
begin

section \<open>JavaScript strings and arrays\<close>

text \<open>
  Strings are \<open>char list\<close>; the model covers ASCII text. \<open>isSpace\<close> is the ASCII part of
  what \<^verbatim>\<open>String.prototype.trim\<close> strips (white space and line terminators).
\<close>

definition isSpace :: "char \<Rightarrow> bool" where
  "isSpace c \<longleftrightarrow> c \<in> set [CHR 0x09, CHR 0x0A, CHR 0x0B, CHR 0x0C, CHR 0x0D, CHR 0x20]"

definition trim :: "string \<Rightarrow> string" where
  "trim s = rev (dropWhile isSpace (rev (dropWhile isSpace s)))"

definition lowerChar :: "char \<Rightarrow> char" where
  "lowerChar c =
     (if 65 \<le> (of_char c :: nat) \<and> (of_char c :: nat) \<le> 90
      then char_of ((of_char c :: nat) + 32) else c)"

definition toLowerCase :: "string \<Rightarrow> string" where
  "toLowerCase s = map lowerChar s"

text \<open>\<^verbatim>\<open>s.split(c)\<close> for a one-character separator: never empty, \<^verbatim>\<open>"".split(",")\<close> is \<^verbatim>\<open>[""]\<close>.\<close>

fun split :: "char \<Rightarrow> string \<Rightarrow> string list" where
  "split c [] = [[]]"
| "split c (x # xs) =
     (if x = c then [] # split c xs
      else (case split c xs of [] \<Rightarrow> [[x]] | w # ws \<Rightarrow> (x # w) # ws))"

fun join :: "string \<Rightarrow> string list \<Rightarrow> string" where
  "join sep [] = []"
| "join sep [x] = x"
| "join sep (x # y # ys) = x @ sep @ join sep (y # ys)"

text \<open>\<^verbatim>\<open>xs.indexOf(x)\<close>: the first position, or -1.\<close>

fun indexOf :: "'a list \<Rightarrow> 'a \<Rightarrow> int" where
  "indexOf [] x = -1"
| "indexOf (y # ys) x =
     (if y = x then 0 else (let r = indexOf ys x in if r < 0 then -1 else r + 1))"

text \<open>\<^verbatim>\<open>values[i]\<close>: \<open>None\<close> is \<^verbatim>\<open>undefined\<close>, which JavaScript returns out of range.\<close>

definition cellAt :: "'a list \<Rightarrow> int \<Rightarrow> 'a option" where
  "cellAt vs i = (if 0 \<le> i \<and> i < int (length vs) then Some (vs ! nat i) else None)"

text \<open>\<^verbatim>\<open>ToString\<close> of a cell, as the number parsers apply it to their argument.\<close>

definition cellString :: "string option \<Rightarrow> string" where
  "cellString c = (case c of None \<Rightarrow> ''undefined'' | Some s \<Rightarrow> s)"

text \<open>\<^verbatim>\<open>s.replace(pat, "")\<close> with a string pattern: the first occurrence is removed.\<close>

fun removeFirst :: "string \<Rightarrow> string \<Rightarrow> string" where
  "removeFirst pat [] = []"
| "removeFirst pat (x # xs) =
     (if take (length pat) (x # xs) = pat then drop (length pat) (x # xs)
      else x # removeFirst pat xs)"

text \<open>\<^verbatim>\<open>s.padStart(n, "0")\<close>: pads on the left, never truncates.\<close>

definition padStart :: "nat \<Rightarrow> char \<Rightarrow> string \<Rightarrow> string" where
  "padStart n c s = replicate (n - length s) c @ s"

section \<open>JavaScript numbers\<close>

text \<open>
  A number as the import flows see it: \<^verbatim>\<open>NaN\<close>, an infinity, or a finite value. The
  flows only test \<^verbatim>\<open>isNaN(x)\<close>, \<^verbatim>\<open>x <= 0\<close> and \<^verbatim>\<open>x < 0\<close>; every comparison with
  \<^verbatim>\<open>NaN\<close> is false.
\<close>

datatype jsnum = NaN | NegInf | Num rat | PosInf

fun isNaN :: "jsnum \<Rightarrow> bool" where
  "isNaN NaN = True"
| "isNaN _ = False"

fun leZero :: "jsnum \<Rightarrow> bool" where
  "leZero NaN = False"
| "leZero NegInf = True"
| "leZero (Num q) = (q \<le> 0)"
| "leZero PosInf = False"

fun ltZero :: "jsnum \<Rightarrow> bool" where
  "ltZero NaN = False"
| "ltZero NegInf = True"
| "ltZero (Num q) = (q < 0)"
| "ltZero PosInf = False"

text \<open>
  Decimal rendering of an integer, \<^verbatim>\<open>Number.prototype.toString\<close> on integers. Integers
  are kept exact: the rounding of binary64 above \<open>2^53\<close> and the exponent notation from
  \<open>10^21\<close> on are outside the model.
\<close>

definition digitChar :: "nat \<Rightarrow> char" where
  "digitChar d = char_of (48 + d)"

function natToString :: "nat \<Rightarrow> string" where
  "natToString n = (if n < 10 then [digitChar n] else natToString (n div 10) @ [digitChar (n mod 10)])"
  by pat_completeness auto
termination
  by (relation "measure id") auto

declare natToString.simps [simp del]

definition numberToString :: "int option \<Rightarrow> string" where
  "numberToString x =
     (case x of None \<Rightarrow> ''NaN''
      | Some i \<Rightarrow> if i < 0 then CHR ''-'' # natToString (nat (- i)) else natToString (nat i))"

section \<open>The host\<close>

text \<open>
  Builtins of the JavaScript host and of date-fns that the flows call. They are not code
  of this repository, so every flow takes them as a parameter:
  \<^item> \<open>parseFloat\<close>: \<^verbatim>\<open>Number.parseFloat\<close>;
  \<^item> \<open>parseInt\<close>: \<^verbatim>\<open>Number.parseInt(s)\<close>, and \<open>parseInt10\<close>: \<^verbatim>\<open>Number.parseInt(s, 10)\<close>;
    \<open>None\<close> is \<^verbatim>\<open>NaN\<close>;
  \<^item> \<open>newDate\<close>: \<^verbatim>\<open>new Date(s)\<close>, \<open>None\<close> when \<^verbatim>\<open>getTime()\<close> is \<^verbatim>\<open>NaN\<close>; a valid date
    is kept as its \<^verbatim>\<open>yyyy-MM-dd\<close> rendering;
  \<^item> \<open>parseMDY\<close>: date-fns \<^verbatim>\<open>parse(s, "MM/dd/yyyy", new Date())\<close>, \<open>None\<close> when invalid;
  \<^item> \<open>today\<close>: \<^verbatim>\<open>new Date()\<close>.
\<close>

record host =
  parseFloat :: "string \<Rightarrow> jsnum"
  parseInt :: "string \<Rightarrow> int option"
  parseInt10 :: "string \<Rightarrow> int option"
  newDate :: "string \<Rightarrow> string option"
  parseMDY :: "string \<Rightarrow> string option"
  today :: string

section \<open>Data model\<close>

text \<open>
  The types of \<^verbatim>\<open>@/types/client\<close> are not among the source files; the records hold the
  fields the flows read and write. A field copied from a cell (\<^verbatim>\<open>values[i]\<close>) is an
  option, since the cell may be \<^verbatim>\<open>undefined\<close>.
\<close>

record Client =
  shopId :: string
  clientName :: string
  agent :: string

datatype PaymentMode = Crypto | OnlineBanking | Ewallet

datatype OrderStatus = Pending | Processing | Completed

record Order =
  orderId :: string
  order_shopId :: "string option"
  order_clientName :: string
  order_agent :: string
  order_date :: "string option"
  order_location :: "string option"
  order_price :: jsnum
  order_status :: OrderStatus

record Deposit =
  depositId :: string
  deposit_shopId :: "string option"
  deposit_clientName :: string
  deposit_agent :: string
  deposit_date :: string
  deposit_amount :: jsnum
  deposit_paymentMode :: PaymentMode

record Withdrawal =
  withdrawalId :: string
  withdrawal_shopId :: "string option"
  withdrawal_clientName :: string
  withdrawal_agent :: string
  withdrawal_date :: string
  withdrawal_amount :: jsnum
  withdrawal_paymentMode :: PaymentMode

record Agent =
  agent_name :: string
  addedToday :: int
  monthlyAdded :: int
  openAccounts :: int
  totalDeposits :: jsnum

fun paymentModeLabel :: "PaymentMode \<Rightarrow> string" where
  "paymentModeLabel Crypto = ''Crypto''"
| "paymentModeLabel OnlineBanking = ''Online Banking''"
| "paymentModeLabel Ewallet = ''Ewallet''"

text \<open>\<^verbatim>\<open>["Crypto", "Online Banking", "Ewallet"].includes(cell)\<close>, with the label found.\<close>

definition exactPaymentMode :: "string option \<Rightarrow> PaymentMode option" where
  "exactPaymentMode cell =
     (if cell = Some ''Crypto'' then Some Crypto
      else if cell = Some ''Online Banking'' then Some OnlineBanking
      else if cell = Some ''Ewallet'' then Some Ewallet
      else None)"

text \<open>\<^verbatim>\<open>["Pending", "Processing", "Completed"].includes(cell)\<close>, with the label found.\<close>

definition exactOrderStatus :: "string option \<Rightarrow> OrderStatus option" where
  "exactOrderStatus cell =
     (if cell = Some ''Pending'' then Some Pending
      else if cell = Some ''Processing'' then Some Processing
      else if cell = Some ''Completed'' then Some Completed
      else None)"

section \<open>Identifier generation (client context)\<close>

text \<open>
  Each generator reads the last element of its list: the identifier with the prefix
  removed, parsed, plus one; 0 plus one for an empty list. \<^verbatim>\<open>NaN + 1\<close> is \<^verbatim>\<open>NaN\<close>. The
  lists are React state: inside one run of \<^verbatim>\<open>handleImport\<close> they are the ones captured
  when the handler was created.
\<close>

definition generateOrderId :: "host \<Rightarrow> Order list \<Rightarrow> string" where
  "generateOrderId h orders =
     (let lastOrder = (if length orders > 0
                       then parseInt h (removeFirst ''OR'' (orderId (last orders))) else Some 0);
          newId = map_option (\<lambda>n. n + 1) lastOrder
      in ''OR'' @ padStart 5 (CHR ''0'') (numberToString newId))"

definition generateDepositId :: "host \<Rightarrow> Deposit list \<Rightarrow> string" where
  "generateDepositId h deposits =
     (let lastDeposit = (if length deposits > 0
                         then parseInt h (removeFirst ''DP'' (depositId (last deposits))) else Some 0);
          newId = map_option (\<lambda>n. n + 1) lastDeposit
      in ''DP'' @ padStart 5 (CHR ''0'') (numberToString newId))"

definition generateWithdrawalId :: "host \<Rightarrow> Withdrawal list \<Rightarrow> string" where
  "generateWithdrawalId h withdrawals =
     (let lastWithdrawal = (if length withdrawals > 0
                            then parseInt h (removeFirst ''WD'' (withdrawalId (last withdrawals)))
                            else Some 0);
          newId = map_option (\<lambda>n. n + 1) lastWithdrawal
      in ''WD'' @ padStart 5 (CHR ''0'') (numberToString newId))"

section \<open>The CSV front end\<close>

text \<open>
  The first 30 lines of every \<^verbatim>\<open>handleImport\<close> are the same up to \<^verbatim>\<open>requiredFields\<close>:
  the empty-input guard, the split into lines, the line-count guard and the header check.
  \<open>Inl\<close> is the message passed to \<^verbatim>\<open>setError\<close> before the early \<^verbatim>\<open>return\<close>; \<open>Inr\<close> is
  the header and \<^verbatim>\<open>lines[1..]\<close>.
\<close>

definition csvLines :: "string \<Rightarrow> string list" where
  "csvLines csvData = split (CHR 0x0A) (trim csvData)"

definition csvHeader :: "string \<Rightarrow> string list" where
  "csvHeader csvData = map (\<lambda>h. toLowerCase (trim h)) (split (CHR '','') (hd (csvLines csvData)))"

definition missingFields :: "string list \<Rightarrow> string \<Rightarrow> string list" where
  "missingFields requiredFields csvData =
     filter (\<lambda>field. field \<notin> set (csvHeader csvData)) requiredFields"

definition parseCsv :: "string list \<Rightarrow> string \<Rightarrow> string + (string list \<times> string list)" where
  "parseCsv requiredFields csvData =
     (if trim csvData = [] then Inl ''Please enter or upload CSV data''
      else if length (csvLines csvData) < 2
        then Inl ''CSV must contain at least a header row and one data row''
      else if length (missingFields requiredFields csvData) > 0
        then Inl (''CSV is missing required fields: ''
                  @ join '', '' (missingFields requiredFields csvData))
      else Inr (csvHeader csvData, tl (csvLines csvData)))"

section \<open>The row loop\<close>

text \<open>
  What one iteration of \<^verbatim>\<open>for (let i = 1; i < lines.length; i++)\<close> does with its line:
  nothing (the line is blank), \<^verbatim>\<open>errorCount++; continue\<close>, a record built and
  \<^verbatim>\<open>successCount++\<close>, or an exception that leaves the loop for the \<^verbatim>\<open>catch\<close> block.
  The accumulator lists the records in the order they are handed to the store
  (\<^verbatim>\<open>addOrder\<close>, \<^verbatim>\<open>addDeposit\<close>, \<^verbatim>\<open>addWithdrawal\<close>, \<^verbatim>\<open>addAgent\<close>, or the push onto
  \<^verbatim>\<open>allWithdrawals\<close>). \<^verbatim>\<open>setProgress\<close> and the pauses every few rows change none of
  these values and are left out.
\<close>

datatype 'r row_result = Blank | Rejected | Accepted 'r | Threw

datatype 'r run = Finished nat nat "'r list" | Interrupted nat nat "'r list"

fun processRows :: "(string \<Rightarrow> 'r row_result) \<Rightarrow> string list \<Rightarrow> nat \<Rightarrow> nat \<Rightarrow> 'r list \<Rightarrow> 'r run" where
  "processRows row [] successCount errorCount acc = Finished successCount errorCount acc"
| "processRows row (l # ls) successCount errorCount acc =
     (case row l of
        Blank \<Rightarrow> processRows row ls successCount errorCount acc
      | Rejected \<Rightarrow> processRows row ls successCount (errorCount + 1) acc
      | Accepted r \<Rightarrow> processRows row ls (successCount + 1) errorCount (acc @ [r])
      | Threw \<Rightarrow> Interrupted successCount errorCount acc)"

text \<open>
  What \<^verbatim>\<open>handleImport\<close> leaves behind: an error before the loop; the \<^verbatim>\<open>catch\<close> block
  (the counters are never published, the records already handed to the store stay); or
  \<^verbatim>\<open>setSuccessCount\<close>, \<^verbatim>\<open>setErrorCount\<close> and the records handed to the store.
\<close>

datatype 'r outcome =
    StructuralError string
  | ProcessingError "'r list"
  | Imported nat nat "'r list"

fun finish :: "'r run \<Rightarrow> 'r outcome" where
  "finish (Finished s e acc) = Imported s e acc"
| "finish (Interrupted s e acc) = ProcessingError acc"

fun committed :: "'r outcome \<Rightarrow> 'r list" where
  "committed (StructuralError m) = []"
| "committed (ProcessingError acc) = acc"
| "committed (Imported s e acc) = acc"

text \<open>The message set after the loop when nothing was imported.\<close>

definition finalError :: "string \<Rightarrow> nat \<Rightarrow> string option" where
  "finalError noun successCount =
     (if successCount > 0 then None
      else Some (''No valid '' @ noun @ '' found in the CSV data''))"

section \<open>Row validation\<close>

text \<open>\<^verbatim>\<open>client?.clientName || "Unknown Client"\<close> and \<^verbatim>\<open>client?.agent || "Unknown Agent"\<close>.\<close>

definition clientNameOr :: "Client option \<Rightarrow> string" where
  "clientNameOr client =
     (case client of None \<Rightarrow> ''Unknown Client''
      | Some c \<Rightarrow> if clientName c = [] then ''Unknown Client'' else clientName c)"

definition agentOr :: "Client option \<Rightarrow> string" where
  "agentOr client =
     (case client of None \<Rightarrow> ''Unknown Agent''
      | Some c \<Rightarrow> if agent c = [] then ''Unknown Agent'' else agent c)"

text \<open>
  Payment mode of the withdrawal flows: the exact labels first, then the three synonym
  lists (written inline in the source) on the trimmed, lower-cased cell. \<^verbatim>\<open>values[paymentModeIndex].trim()\<close> on a missing cell
  raises a TypeError.
\<close>

definition cryptoSynonyms :: "string list" where
  "cryptoSynonyms = [''crypto'', ''cryptocurrency'', ''bitcoin'', ''eth'', ''btc'']"

definition onlineBankingSynonyms :: "string list" where
  "onlineBankingSynonyms = [''online'', ''online banking'', ''internet banking'']"

definition ewalletSynonyms :: "string list" where
  "ewalletSynonyms = [''ewallet'', ''e-wallet'', ''digital wallet'', ''wallet'']"

definition withdrawalPaymentMode :: "string option \<Rightarrow> PaymentMode row_result" where
  "withdrawalPaymentMode cell =
     (case exactPaymentMode cell of
        Some m \<Rightarrow> Accepted m
      | None \<Rightarrow>
          (case cell of
             None \<Rightarrow> Threw
           | Some s \<Rightarrow>
               (let normalizedMode = toLowerCase (trim s) in
                if normalizedMode \<in> set cryptoSynonyms then Accepted Crypto
                else if normalizedMode \<in> set onlineBankingSynonyms then Accepted OnlineBanking
                else if normalizedMode \<in> set ewalletSynonyms then Accepted Ewallet
                else Rejected)))"

text \<open>
  The body of a withdrawal iteration once the line is split, the same in both withdrawal
  modals. A date that does not parse (or a missing date cell) becomes today's date.
\<close>

definition withdrawalCells ::
  "host \<Rightarrow> Client list \<Rightarrow> Withdrawal list \<Rightarrow> int \<Rightarrow> int \<Rightarrow> int \<Rightarrow> int \<Rightarrow> string list
   \<Rightarrow> Withdrawal row_result" where
  "withdrawalCells h clients withdrawals shopIdIndex dateIndex amountIndex paymentModeIndex values =
     (let shopIdCell = cellAt values shopIdIndex;
          client = find (\<lambda>c. Some (shopId c) = shopIdCell) clients;
          parsedDate = (case cellAt values dateIndex of
                          None \<Rightarrow> today h
                        | Some s \<Rightarrow> (case newDate h s of None \<Rightarrow> today h | Some d \<Rightarrow> d));
          amount = parseFloat h (cellString (cellAt values amountIndex))
      in if isNaN amount \<or> leZero amount then Rejected
         else (case withdrawalPaymentMode (cellAt values paymentModeIndex) of
                 Blank \<Rightarrow> Rejected
               | Rejected \<Rightarrow> Rejected
               | Threw \<Rightarrow> Threw
               | Accepted paymentMode \<Rightarrow>
                   Accepted \<lparr> withdrawalId = generateWithdrawalId h withdrawals,
                              withdrawal_shopId = shopIdCell,
                              withdrawal_clientName = clientNameOr client,
                              withdrawal_agent = agentOr client,
                              withdrawal_date = parsedDate,
                              withdrawal_amount = amount,
                              withdrawal_paymentMode = paymentMode \<rparr>))"

text \<open>\<^verbatim>\<open>components/modals/bulk-withdrawal-modal.tsx\<close>: one \<^verbatim>\<open>addWithdrawal\<close> per valid row.\<close>

definition withdrawalRow ::
  "host \<Rightarrow> Client list \<Rightarrow> Withdrawal list \<Rightarrow> int \<Rightarrow> int \<Rightarrow> int \<Rightarrow> int \<Rightarrow> string
   \<Rightarrow> Withdrawal row_result" where
  "withdrawalRow h clients withdrawals shopIdIndex dateIndex amountIndex paymentModeIndex line =
     (if trim line = [] then Blank
      else withdrawalCells h clients withdrawals shopIdIndex dateIndex amountIndex paymentModeIndex
             (map trim (split (CHR '','') line)))"

text \<open>The batched (Firestore) withdrawal modal: the same, behind \<^verbatim>\<open>values.length < 4\<close>.\<close>

definition withdrawalRowBatched ::
  "host \<Rightarrow> Client list \<Rightarrow> Withdrawal list \<Rightarrow> int \<Rightarrow> int \<Rightarrow> int \<Rightarrow> int \<Rightarrow> string
   \<Rightarrow> Withdrawal row_result" where
  "withdrawalRowBatched h clients withdrawals shopIdIndex dateIndex amountIndex paymentModeIndex line =
     (if trim line = [] then Blank
      else (let values = map trim (split (CHR '','') line) in
            if length values < 4 then Rejected
            else withdrawalCells h clients withdrawals shopIdIndex dateIndex amountIndex
                   paymentModeIndex values))"

text \<open>
  The deposit flow: an unknown shop ID rejects the row; the date is parsed as MM/dd/yyyy
  and falls back to today; the payment mode must be one of the exact labels.
\<close>

definition depositRow ::
  "host \<Rightarrow> Client list \<Rightarrow> Deposit list \<Rightarrow> int \<Rightarrow> int \<Rightarrow> int \<Rightarrow> int \<Rightarrow> string
   \<Rightarrow> Deposit row_result" where
  "depositRow h clients deposits shopIdIndex dateIndex amountIndex paymentModeIndex line =
     (if trim line = [] then Blank
      else (let values = map trim (split (CHR '','') line);
                shopIdCell = cellAt values shopIdIndex in
            case find (\<lambda>c. Some (shopId c) = shopIdCell) clients of
              None \<Rightarrow> Rejected
            | Some client \<Rightarrow>
                (let depositDate = (case cellAt values dateIndex of
                                      None \<Rightarrow> today h
                                    | Some s \<Rightarrow> (case parseMDY h s of None \<Rightarrow> today h | Some d \<Rightarrow> d));
                     amount = parseFloat h (cellString (cellAt values amountIndex))
                 in if isNaN amount \<or> leZero amount then Rejected
                    else (case exactPaymentMode (cellAt values paymentModeIndex) of
                            None \<Rightarrow> Rejected
                          | Some paymentMode \<Rightarrow>
                              Accepted \<lparr> depositId = generateDepositId h deposits,
                                         deposit_shopId = shopIdCell,
                                         deposit_clientName = clientName client,
                                         deposit_agent = agent client,
                                         deposit_date = depositDate,
                                         deposit_amount = amount,
                                         deposit_paymentMode = paymentMode \<rparr>))))"

text \<open>
  The order flow. \<^verbatim>\<open>parsedDate = new Date(orderDate)\<close> is computed and never read: the
  record carries \<^verbatim>\<open>orderDate ? orderDate : null\<close>, the cell itself.
\<close>

definition orderRow ::
  "host \<Rightarrow> Client list \<Rightarrow> Order list \<Rightarrow> int \<Rightarrow> int \<Rightarrow> int \<Rightarrow> int \<Rightarrow> int \<Rightarrow> string
   \<Rightarrow> Order row_result" where
  "orderRow h clients orders shopIdIndex dateIndex locationIndex priceIndex statusIndex line =
     (if trim line = [] then Blank
      else (let values = map trim (split (CHR '','') line);
                shopIdCell = cellAt values shopIdIndex in
            case find (\<lambda>c. Some (shopId c) = shopIdCell) clients of
              None \<Rightarrow> Rejected
            | Some client \<Rightarrow>
                (let orderDate = cellAt values dateIndex;
                     processedDate = (if orderDate = None \<or> orderDate = Some [] then None
                                      else orderDate);
                     price = parseFloat h (cellString (cellAt values priceIndex))
                 in if isNaN price \<or> leZero price then Rejected
                    else (case exactOrderStatus (cellAt values statusIndex) of
                            None \<Rightarrow> Rejected
                          | Some status \<Rightarrow>
                              Accepted \<lparr> orderId = generateOrderId h orders,
                                         order_shopId = shopIdCell,
                                         order_clientName = clientName client,
                                         order_agent = agent client,
                                         order_date = processedDate,
                                         order_location = cellAt values locationIndex,
                                         order_price = price,
                                         order_status = status \<rparr>))))"

text \<open>The agent flow: a name, two counts read with radix 10, and a total.\<close>

definition agentRow :: "host \<Rightarrow> int \<Rightarrow> int \<Rightarrow> int \<Rightarrow> int \<Rightarrow> string \<Rightarrow> Agent row_result" where
  "agentRow h nameIndex addedTodayIndex monthlyAddedIndex totalDepositsIndex line =
     (if trim line = [] then Blank
      else (let values = map trim (split (CHR '','') line) in
            case cellAt values nameIndex of
              None \<Rightarrow> Rejected
            | Some name \<Rightarrow>
                if name = [] then Rejected
                else (let total = parseFloat h (cellString (cellAt values totalDepositsIndex)) in
                      case parseInt10 h (cellString (cellAt values addedTodayIndex)) of
                        None \<Rightarrow> Rejected
                      | Some today_n \<Rightarrow>
                          (case parseInt10 h (cellString (cellAt values monthlyAddedIndex)) of
                             None \<Rightarrow> Rejected
                           | Some monthly_n \<Rightarrow>
                               if today_n < 0 \<or> monthly_n < 0 \<or> isNaN total \<or> ltZero total
                               then Rejected
                               else Accepted \<lparr> agent_name = name,
                                               addedToday = today_n,
                                               monthlyAdded = monthly_n,
                                               openAccounts = 0,
                                               totalDeposits = total \<rparr>))))"

section \<open>The batch committer\<close>

text \<open>
  \<^verbatim>\<open>for (let i = 0; i < all.length; i += BATCH_SIZE)\<close> with
  \<^verbatim>\<open>all.slice(i, i + BATCH_SIZE)\<close>, one \<^verbatim>\<open>batch.commit()\<close> per slice, behind
  \<^verbatim>\<open>all.length > 0\<close>. The result lists the slices in the order they are committed.
\<close>

definition BATCH_SIZE :: nat where
  "BATCH_SIZE = 450"

definition slice :: "nat \<Rightarrow> nat \<Rightarrow> 'a list \<Rightarrow> 'a list" where
  "slice i j xs = take (j - i) (drop i xs)"

function batchesFrom :: "nat \<Rightarrow> 'a list \<Rightarrow> 'a list list" where
  "batchesFrom i all =
     (if i < length all then slice i (i + BATCH_SIZE) all # batchesFrom (i + BATCH_SIZE) all
      else [])"
  by pat_completeness auto
termination
  by (relation "measure (\<lambda>(i, all). length all - i)") (auto simp: BATCH_SIZE_def)

declare batchesFrom.simps [simp del]

definition commitBatches :: "'a list \<Rightarrow> 'a list list" where
  "commitBatches all = (if length all > 0 then batchesFrom 0 all else [])"

section \<open>The import flows\<close>

definition orderRequiredFields :: "string list" where
  "orderRequiredFields = [''shop id'', ''date'', ''location'', ''price'', ''status'']"

definition depositRequiredFields :: "string list" where
  "depositRequiredFields = [''shop id'', ''date'', ''amount'', ''payment mode'']"

definition withdrawalRequiredFields :: "string list" where
  "withdrawalRequiredFields = [''shop id'', ''date'', ''amount'', ''payment mode'']"

definition agentRequiredFields :: "string list" where
  "agentRequiredFields = [''agent name'', ''added today'', ''monthly added'', ''total deposits'']"

definition orderImport :: "host \<Rightarrow> Client list \<Rightarrow> Order list \<Rightarrow> string \<Rightarrow> Order outcome" where
  "orderImport h clients orders csvData =
     (case parseCsv orderRequiredFields csvData of
        Inl msg \<Rightarrow> StructuralError msg
      | Inr (header, rows) \<Rightarrow>
          finish (processRows
                    (orderRow h clients orders (indexOf header ''shop id'') (indexOf header ''date'')
                       (indexOf header ''location'') (indexOf header ''price'')
                       (indexOf header ''status''))
                    rows 0 0 []))"

definition depositImport :: "host \<Rightarrow> Client list \<Rightarrow> Deposit list \<Rightarrow> string \<Rightarrow> Deposit outcome" where
  "depositImport h clients deposits csvData =
     (case parseCsv depositRequiredFields csvData of
        Inl msg \<Rightarrow> StructuralError msg
      | Inr (header, rows) \<Rightarrow>
          finish (processRows
                    (depositRow h clients deposits (indexOf header ''shop id'')
                       (indexOf header ''date'') (indexOf header ''amount'')
                       (indexOf header ''payment mode''))
                    rows 0 0 []))"

definition withdrawalImport ::
  "host \<Rightarrow> Client list \<Rightarrow> Withdrawal list \<Rightarrow> string \<Rightarrow> Withdrawal outcome" where
  "withdrawalImport h clients withdrawals csvData =
     (case parseCsv withdrawalRequiredFields csvData of
        Inl msg \<Rightarrow> StructuralError msg
      | Inr (header, rows) \<Rightarrow>
          finish (processRows
                    (withdrawalRow h clients withdrawals (indexOf header ''shop id'')
                       (indexOf header ''date'') (indexOf header ''amount'')
                       (indexOf header ''payment mode''))
                    rows 0 0 []))"

text \<open>
  The batched modal commits after the loop, so an exception inside the loop leaves
  nothing committed. The outcome lists the committed batches; the store is taken to
  accept every \<^verbatim>\<open>batch.commit()\<close>.
\<close>

definition withdrawalImportBatched ::
  "host \<Rightarrow> Client list \<Rightarrow> Withdrawal list \<Rightarrow> string \<Rightarrow> Withdrawal list outcome" where
  "withdrawalImportBatched h clients withdrawals csvData =
     (case parseCsv withdrawalRequiredFields csvData of
        Inl msg \<Rightarrow> StructuralError msg
      | Inr (header, rows) \<Rightarrow>
          (case processRows
                  (withdrawalRowBatched h clients withdrawals (indexOf header ''shop id'')
                     (indexOf header ''date'') (indexOf header ''amount'')
                     (indexOf header ''payment mode''))
                  rows 0 0 [] of
             Finished s e allWithdrawals \<Rightarrow> Imported s e (commitBatches allWithdrawals)
           | Interrupted s e allWithdrawals \<Rightarrow> ProcessingError []))"

definition agentImport :: "host \<Rightarrow> string \<Rightarrow> Agent outcome" where
  "agentImport h csvData =
     (case parseCsv agentRequiredFields csvData of
        Inl msg \<Rightarrow> StructuralError msg
      | Inr (header, rows) \<Rightarrow>
          finish (processRows
                    (agentRow h (indexOf header ''agent name'') (indexOf header ''added today'')
                       (indexOf header ''monthly added'') (indexOf header ''total deposits''))
                    rows 0 0 []))"

section \<open>A reference host\<close>

text \<open>
  A concrete host for the worked runs below. Numbers are parsed by the grammar of
  ECMAScript (\<^verbatim>\<open>StrDecimalLiteral\<close> for \<open>parseFloat\<close>, the \<^verbatim>\<open>parseInt\<close> algorithm with
  its radix) and kept exact; dates are recognised in the forms \<^verbatim>\<open>yyyy-MM-dd\<close>
  (\<open>newDate\<close>) and \<^verbatim>\<open>MM/dd/yyyy\<close> (\<open>parseMDY\<close>) only.
\<close>

definition isDigit :: "char \<Rightarrow> bool" where
  "isDigit c \<longleftrightarrow> 48 \<le> (of_char c :: nat) \<and> (of_char c :: nat) \<le> 57"

definition digitValue :: "char \<Rightarrow> nat" where
  "digitValue c =
     (let n = (of_char c :: nat) in
      if 48 \<le> n \<and> n \<le> 57 then n - 48
      else if 97 \<le> n \<and> n \<le> 122 then n - 87
      else if 65 \<le> n \<and> n \<le> 90 then n - 55
      else 36)"

definition digitsValue :: "nat \<Rightarrow> string \<Rightarrow> nat" where
  "digitsValue radix ds = foldl (\<lambda>a c. radix * a + digitValue c) 0 ds"

definition signOf :: "string \<Rightarrow> bool \<times> string" where
  "signOf s =
     (case s of
        [] \<Rightarrow> (False, [])
      | c # r \<Rightarrow> if c = CHR ''-'' then (True, r) else if c = CHR ''+'' then (False, r) else (False, s))"

definition exponentOf :: "string \<Rightarrow> bool \<times> nat" where
  "exponentOf s =
     (case s of
        [] \<Rightarrow> (False, 0)
      | c # r \<Rightarrow>
          if c = CHR ''e'' \<or> c = CHR ''E''
          then (let (eneg, r') = signOf r; ed = takeWhile isDigit r'
                in if ed = [] then (False, 0) else (eneg, digitsValue 10 ed))
          else (False, 0))"

definition parseFloatModel :: "string \<Rightarrow> jsnum" where
  "parseFloatModel s =
     (let (neg, u) = signOf (dropWhile isSpace s) in
      if take 8 u = ''Infinity'' then (if neg then NegInf else PosInf)
      else (let ip = takeWhile isDigit u;
                r1 = dropWhile isDigit u;
                fp = (case r1 of [] \<Rightarrow> [] | c # r \<Rightarrow> if c = CHR ''.'' then takeWhile isDigit r else []);
                r2 = (case r1 of [] \<Rightarrow> [] | c # r \<Rightarrow> if c = CHR ''.'' then dropWhile isDigit r else r1)
            in if ip = [] \<and> fp = [] then NaN
               else (let mant = (of_nat (digitsValue 10 (ip @ fp)) :: rat) / 10 ^ length fp;
                         (eneg, ex) = exponentOf r2;
                         v = (if eneg then mant / 10 ^ ex else mant * 10 ^ ex)
                     in Num (if neg then - v else v))))"

text \<open>\<^verbatim>\<open>parseInt(s, radix)\<close>; radix 0 stands for an absent radix.\<close>

definition parseIntModel :: "nat \<Rightarrow> string \<Rightarrow> int option" where
  "parseIntModel radix s =
     (let (neg, u) = signOf (dropWhile isSpace s);
          hex = ((radix = 0 \<or> radix = 16) \<and> (take 2 u = ''0x'' \<or> take 2 u = ''0X''));
          R = (if hex then 16 else if radix = 0 then 10 else radix);
          v = (if hex then drop 2 u else u);
          ds = takeWhile (\<lambda>c. digitValue c < R) v
      in if R < 2 \<or> 36 < R \<or> ds = [] then None
         else Some (if neg then - int (digitsValue R ds) else int (digitsValue R ds)))"

definition isoDateModel :: "string \<Rightarrow> string option" where
  "isoDateModel s =
     (if length s = 10 \<and> s ! 4 = CHR ''-'' \<and> s ! 7 = CHR ''-''
         \<and> list_all isDigit (take 4 s) \<and> list_all isDigit (take 2 (drop 5 s))
         \<and> list_all isDigit (drop 8 s)
         \<and> 1 \<le> digitsValue 10 (take 2 (drop 5 s)) \<and> digitsValue 10 (take 2 (drop 5 s)) \<le> 12
         \<and> 1 \<le> digitsValue 10 (drop 8 s) \<and> digitsValue 10 (drop 8 s) \<le> 31
      then Some s else None)"

definition mdyDateModel :: "string \<Rightarrow> string option" where
  "mdyDateModel s =
     (if length s = 10 \<and> s ! 2 = CHR ''/'' \<and> s ! 5 = CHR ''/''
         \<and> list_all isDigit (take 2 s) \<and> list_all isDigit (take 2 (drop 3 s))
         \<and> list_all isDigit (drop 6 s)
         \<and> 1 \<le> digitsValue 10 (take 2 s) \<and> digitsValue 10 (take 2 s) \<le> 12
         \<and> 1 \<le> digitsValue 10 (take 2 (drop 3 s)) \<and> digitsValue 10 (take 2 (drop 3 s)) \<le> 31
      then Some (drop 6 s @ ''-'' @ take 2 s @ ''-'' @ take 2 (drop 3 s)) else None)"

definition refHost :: host where
  "refHost = \<lparr> parseFloat = parseFloatModel,
               parseInt = parseIntModel 0,
               parseInt10 = parseIntModel 10,
               newDate = isoDateModel,
               parseMDY = mdyDateModel,
               today = ''2026-11-03'' \<rparr>"

section \<open>Vocabulary of the properties\<close>

text \<open>
  The definitions of this section are not translated from the source: they name what the
  properties below talk about, and the concrete inputs of the worked runs.
\<close>

text \<open>The records a run of the loop has collected, whether it finished or not.\<close>

fun runRecords :: "'r run \<Rightarrow> 'r list" where
  "runRecords (Finished s e acc) = acc"
| "runRecords (Interrupted s e acc) = acc"

text \<open>The records the rows of an input yield, and the rows rejected, read row by row.\<close>

fun acceptedRecords :: "(string \<Rightarrow> 'r row_result) \<Rightarrow> string list \<Rightarrow> 'r list" where
  "acceptedRecords row [] = []"
| "acceptedRecords row (l # ls) =
     (case row l of Accepted r \<Rightarrow> r # acceptedRecords row ls | _ \<Rightarrow> acceptedRecords row ls)"

definition rejectedRows :: "(string \<Rightarrow> 'r row_result) \<Rightarrow> string list \<Rightarrow> string list" where
  "rejectedRows row ls = filter (\<lambda>l. row l = Rejected) ls"

text \<open>The data rows of an input: the non-blank lines after the header.\<close>

definition dataRows :: "string list \<Rightarrow> string list" where
  "dataRows ls = filter (\<lambda>l. trim l \<noteq> []) ls"

text \<open>An import that stopped before the loop, with its message and nothing committed.\<close>

definition abortsWith :: "string \<Rightarrow> 'r outcome \<Rightarrow> bool" where
  "abortsWith m out \<longleftrightarrow> out = StructuralError m \<and> committed out = []"

text \<open>What a row came to, without the record.\<close>

definition verdict :: "'r row_result \<Rightarrow> unit row_result" where
  "verdict res = map_row_result (\<lambda>r. ()) res"



text \<open>The synonym table of the withdrawal flows, by canonical mode.\<close>

fun synonymsOf :: "PaymentMode \<Rightarrow> string list" where
  "synonymsOf Crypto = cryptoSynonyms"
| "synonymsOf OnlineBanking = onlineBankingSynonyms"
| "synonymsOf Ewallet = ewalletSynonyms"

subsection \<open>Concrete inputs\<close>

definition clientS1 :: Client where
  "clientS1 = \<lparr> shopId = ''S1'', clientName = ''Alice'', agent = ''Bob'' \<rparr>"

definition clientS3 :: Client where
  "clientS3 = \<lparr> shopId = ''S3'', clientName = ''Carol'', agent = ''Dan'' \<rparr>"


text \<open>A header alone, and an input whose header lacks the amount column.\<close>

definition csvOneLine :: string where
  "csvOneLine = ''shop id,date,amount,payment mode''"

definition csvNoAmount :: string where
  "csvNoAmount = ''shop id,date,payment mode'' @ [CHR 0x0A] @ ''S1,2023-01-01,Crypto''"

text \<open>The example scenario of the specification.\<close>

definition csvScenario :: string where
  "csvScenario =
     ''shop id,date,amount,payment mode'' @ [CHR 0x0A]
     @ ''S1,2023-01-01,100.00,Crypto'' @ [CHR 0x0A]
     @ ''S2,bad,-5,Unknown''"

text \<open>Three data rows, the second without a payment-mode cell.\<close>

definition csvShortRow :: string where
  "csvShortRow =
     ''shop id,date,amount,payment mode'' @ [CHR 0x0A]
     @ ''S1,2023-01-01,100,Crypto'' @ [CHR 0x0A]
     @ ''S2,2023-01-02,50'' @ [CHR 0x0A]
     @ ''S3,2023-01-03,70,Ewallet''"

text \<open>A five-column header and a row of four cells.\<close>

definition csvWideHeader :: string where
  "csvWideHeader =
     ''notes,shop id,date,amount,payment mode'' @ [CHR 0x0A]
     @ ''x,S1,2023-01-01,100''"

text \<open>Three data lines, the second blank.\<close>

definition csvBlankLine :: string where
  "csvBlankLine =
     ''shop id,date,amount,payment mode'' @ [CHR 0x0A]
     @ ''S1,03/15/2025,100,Crypto'' @ [CHR 0x0A]
     @ ''   '' @ [CHR 0x0A]
     @ ''S9,03/16/2025,20,Crypto''"

text \<open>The number a flow reads from column \<open>i\<close> of a line.\<close>

definition amountCell :: "host \<Rightarrow> string \<Rightarrow> int \<Rightarrow> jsnum" where
  "amountCell h line i = parseFloat h (cellString (cellAt (map trim (split (CHR '','') line)) i))"

text \<open>The client, if any, whose shop ID is in column \<open>i\<close> of a line.\<close>

definition clientOfLine :: "Client list \<Rightarrow> string \<Rightarrow> int \<Rightarrow> Client option" where
  "clientOfLine clients line i =
     find (\<lambda>c. Some (shopId c) = cellAt (map trim (split (CHR '','') line)) i) clients"

text \<open>The record of the scenario's first row, on any host.\<close>

definition scenarioRecord :: "host \<Rightarrow> Withdrawal list \<Rightarrow> Withdrawal" where
  "scenarioRecord h withdrawals =
     \<lparr> withdrawalId = generateWithdrawalId h withdrawals,
       withdrawal_shopId = Some ''S1'',
       withdrawal_clientName = ''Unknown Client'',
       withdrawal_agent = ''Unknown Agent'',
       withdrawal_date = (case newDate h ''2023-01-01'' of None \<Rightarrow> today h | Some d \<Rightarrow> d),
       withdrawal_amount = Num 100,
       withdrawal_paymentMode = Crypto \<rparr>"

text \<open>Two order rows: a date that does not parse, and a negative price.\<close>

definition csvOrders :: string where
  "csvOrders =
     ''shop id,date,location,price,status'' @ [CHR 0x0A]
     @ ''S1,bad,Paris,100,Pending'' @ [CHR 0x0A]
     @ ''S1,2023-01-01,Rome,-3,Pending''"

text \<open>A header and the same valid withdrawal row a thousand times.\<close>

definition csvThousand :: string where
  "csvThousand =
     ''shop id,date,amount,payment mode''
     @ concat (replicate 1000 (CHR 0x0A # ''S1,2023-01-01,100.00,Crypto''))"

section \<open>The CSV front end: proofs\<close>

lemma split_nonempty: "split c s \<noteq> []"
  by (induction s) (auto split: list.splits)

lemma csvLines_blank: "trim csvData = [] \<Longrightarrow> length (csvLines csvData) = 1"
  by (simp add: csvLines_def)

lemma parseCsv_empty:
  "trim csvData = [] \<Longrightarrow> parseCsv req csvData = Inl ''Please enter or upload CSV data''"
  by (simp add: parseCsv_def)

lemma parseCsv_short:
  "trim csvData \<noteq> [] \<Longrightarrow> length (csvLines csvData) < 2
   \<Longrightarrow> parseCsv req csvData = Inl ''CSV must contain at least a header row and one data row''"
  by (simp add: parseCsv_def)

lemma parseCsv_missing:
  assumes "2 \<le> length (csvLines csvData)" and "missingFields req csvData \<noteq> []"
  shows "parseCsv req csvData
         = Inl (''CSV is missing required fields: '' @ join '', '' (missingFields req csvData))"
proof -
  have "trim csvData \<noteq> []"
    using assms(1) csvLines_blank [of csvData] by auto
  with assms show ?thesis
    by (simp add: parseCsv_def)
qed

lemma parseCsv_ok:
  assumes "2 \<le> length (csvLines csvData)" and "missingFields req csvData = []"
  shows "parseCsv req csvData = Inr (csvHeader csvData, tl (csvLines csvData))"
proof -
  have "trim csvData \<noteq> []"
    using assms(1) csvLines_blank [of csvData] by auto
  with assms show ?thesis
    by (simp add: parseCsv_def)
qed

lemma imports_structural:
  assumes "parseCsv orderRequiredFields csvData = Inl m"
  shows "abortsWith m (orderImport h clients orders csvData)"
  using assms by (simp add: abortsWith_def orderImport_def)

lemma deposit_structural:
  assumes "parseCsv depositRequiredFields csvData = Inl m"
  shows "abortsWith m (depositImport h clients deposits csvData)"
  using assms by (simp add: abortsWith_def depositImport_def)

lemma withdrawal_structural:
  assumes "parseCsv withdrawalRequiredFields csvData = Inl m"
  shows "abortsWith m (withdrawalImport h clients withdrawals csvData)"
    and "abortsWith m (withdrawalImportBatched h clients withdrawals csvData)"
  using assms by (simp_all add: abortsWith_def withdrawalImport_def withdrawalImportBatched_def)

lemma agent_structural:
  assumes "parseCsv agentRequiredFields csvData = Inl m"
  shows "abortsWith m (agentImport h csvData)"
  using assms by (simp add: abortsWith_def agentImport_def)

text \<open>
  Claim C2. When the trimmed input has fewer than two lines, or the header lacks a required
  column, each of the five imports stops before the row loop: the outcome is the single
  message (for a missing column, the list of the missing names), and nothing is
  committed.
\<close>

theorem structural_error_aborts:
  "(length (csvLines csvData) < 2 \<longrightarrow>
      (let m = (if trim csvData = [] then ''Please enter or upload CSV data''
                else ''CSV must contain at least a header row and one data row'')
       in abortsWith m (orderImport h clients orders csvData)
          \<and> abortsWith m (depositImport h clients deposits csvData)
          \<and> abortsWith m (withdrawalImport h clients withdrawals csvData)
          \<and> abortsWith m (withdrawalImportBatched h clients withdrawals csvData)
          \<and> abortsWith m (agentImport h csvData)))
   \<and> (2 \<le> length (csvLines csvData) \<and> missingFields orderRequiredFields csvData \<noteq> [] \<longrightarrow>
        abortsWith (''CSV is missing required fields: ''
                    @ join '', '' (missingFields orderRequiredFields csvData))
          (orderImport h clients orders csvData))
   \<and> (2 \<le> length (csvLines csvData) \<and> missingFields depositRequiredFields csvData \<noteq> [] \<longrightarrow>
        abortsWith (''CSV is missing required fields: ''
                    @ join '', '' (missingFields depositRequiredFields csvData))
          (depositImport h clients deposits csvData))
   \<and> (2 \<le> length (csvLines csvData) \<and> missingFields withdrawalRequiredFields csvData \<noteq> [] \<longrightarrow>
        abortsWith (''CSV is missing required fields: ''
                    @ join '', '' (missingFields withdrawalRequiredFields csvData))
          (withdrawalImport h clients withdrawals csvData)
        \<and> abortsWith (''CSV is missing required fields: ''
                    @ join '', '' (missingFields withdrawalRequiredFields csvData))
          (withdrawalImportBatched h clients withdrawals csvData))
   \<and> (2 \<le> length (csvLines csvData) \<and> missingFields agentRequiredFields csvData \<noteq> [] \<longrightarrow>
        abortsWith (''CSV is missing required fields: ''
                    @ join '', '' (missingFields agentRequiredFields csvData))
          (agentImport h csvData))"
proof -
  have short: "length (csvLines csvData) < 2 \<Longrightarrow>
      parseCsv req csvData = Inl (if trim csvData = [] then ''Please enter or upload CSV data''
                else ''CSV must contain at least a header row and one data row'')" for req
    by (simp add: parseCsv_empty parseCsv_short)
  show ?thesis
    unfolding Let_def
    by (intro conjI impI;
        rule imports_structural deposit_structural withdrawal_structural agent_structural;
        simp add: short parseCsv_missing)
qed

lemma csvOneLine_lines: "csvLines csvOneLine = [''shop id,date,amount,payment mode'']"
  "trim csvOneLine \<noteq> []"
  by code_simp+

lemma csvNoAmount_eval:
  "length (csvLines csvNoAmount) = 2"
  "missingFields orderRequiredFields csvNoAmount = [''location'', ''price'', ''status'']"
  "missingFields depositRequiredFields csvNoAmount = [''amount'']"
  "missingFields withdrawalRequiredFields csvNoAmount = [''amount'']"
  "missingFields agentRequiredFields csvNoAmount
     = [''agent name'', ''added today'', ''monthly added'', ''total deposits'']"
  by code_simp+

theorem structural_error_aborts_witness:
  "length (csvLines csvOneLine) < 2
   \<and> depositImport refHost [] [] csvOneLine
       = StructuralError ''CSV must contain at least a header row and one data row''
   \<and> agentImport refHost csvOneLine
       = StructuralError ''CSV must contain at least a header row and one data row''
   \<and> 2 \<le> length (csvLines csvNoAmount)
   \<and> orderImport refHost [] [] csvNoAmount
       = StructuralError ''CSV is missing required fields: location, price, status''
   \<and> depositImport refHost [] [] csvNoAmount
       = StructuralError ''CSV is missing required fields: amount''
   \<and> withdrawalImport refHost [] [] csvNoAmount
       = StructuralError ''CSV is missing required fields: amount''
   \<and> withdrawalImportBatched refHost [] [] csvNoAmount
       = StructuralError ''CSV is missing required fields: amount''
   \<and> committed (withdrawalImportBatched refHost [] [] csvNoAmount) = []
   \<and> agentImport refHost csvNoAmount
       = StructuralError
           ''CSV is missing required fields: agent name, added today, monthly added, total deposits''"
  using structural_error_aborts [of csvOneLine refHost "[]" "[]" "[]" "[]"]
        structural_error_aborts [of csvNoAmount refHost "[]" "[]" "[]" "[]"]
  by (simp add: csvOneLine_lines csvNoAmount_eval abortsWith_def Let_def)

section \<open>The row loop: proofs\<close>

lemma processRows_records:
  "runRecords (processRows row ls s e acc) = acc @ runRecords (processRows row ls 0 0 [])"
proof (induction ls arbitrary: s e acc)
  case Nil
  show ?case by simp
next
  case (Cons l ls)
  show ?case
  proof (cases "row l")
    case (Accepted r)
    then show ?thesis
      using Cons.IH [of "Suc s" e "acc @ [r]"] Cons.IH [of "Suc 0" 0 "[r]"] by simp
  next
    case Blank
    then show ?thesis using Cons.IH [of s e acc] by simp
  next
    case Rejected
    then show ?thesis using Cons.IH [of s "Suc e" acc] Cons.IH [of 0 "Suc 0" "[]"] by simp
  next
    case Threw
    then show ?thesis by simp
  qed
qed

lemma processRows_invariant:
  assumes "\<And>l r. row l = Accepted r \<Longrightarrow> P r" and "\<forall>r \<in> set acc. P r"
  shows "\<forall>r \<in> set (runRecords (processRows row ls s e acc)). P r"
  using assms(2)
proof (induction ls arbitrary: s e acc)
  case Nil
  then show ?case by simp
next
  case (Cons l ls)
  show ?case
  proof (cases "row l")
    case (Accepted r)
    with Cons.prems assms(1) have "\<forall>x \<in> set (acc @ [r]). P x" by auto
    from Cons.IH [OF this] Accepted show ?thesis by simp
  next
    case Blank
    with Cons show ?thesis by simp
  next
    case Rejected
    with Cons show ?thesis by simp
  next
    case Threw
    with Cons.prems show ?thesis by simp
  qed
qed

lemma processRows_no_throw:
  assumes "\<forall>l \<in> set ls. row l \<noteq> Threw"
  shows "processRows row ls s e acc
         = Finished (s + length (acceptedRecords row ls)) (e + length (rejectedRows row ls))
             (acc @ acceptedRecords row ls)"
  using assms
proof (induction ls arbitrary: s e acc)
  case Nil
  show ?case by (simp add: rejectedRows_def)
next
  case (Cons l ls)
  then have ih: "\<And>s e acc. processRows row ls s e acc
         = Finished (s + length (acceptedRecords row ls)) (e + length (rejectedRows row ls))
             (acc @ acceptedRecords row ls)"
    by simp
  from Cons.prems have "row l \<noteq> Threw" by simp
  then show ?case
    by (cases "row l") (simp_all add: ih rejectedRows_def)
qed

lemma rows_partition:
  assumes "\<forall>l \<in> set ls. row l \<noteq> Threw" and "\<forall>l \<in> set ls. row l = Blank \<longleftrightarrow> trim l = []"
  shows "length (acceptedRecords row ls) + length (rejectedRows row ls) = length (dataRows ls)"
  using assms
proof (induction ls)
  case Nil
  show ?case by (simp add: rejectedRows_def dataRows_def)
next
  case (Cons l ls)
  then have ih: "length (acceptedRecords row ls) + length (rejectedRows row ls)
                 = length (dataRows ls)"
    by simp
  from Cons.prems have "row l \<noteq> Threw" and "row l = Blank \<longleftrightarrow> trim l = []" by simp_all
  then show ?case
    using ih by (cases "row l") (auto simp: rejectedRows_def dataRows_def)
qed

section \<open>The batch committer: proofs\<close>

lemma slice_length_le: "length (slice i (i + BATCH_SIZE) xs) \<le> BATCH_SIZE"
  by (simp add: slice_def)

lemma batchesFrom_bounded: "\<forall>b \<in> set (batchesFrom i xs). length b \<le> BATCH_SIZE"
proof (induction i xs rule: batchesFrom.induct)
  case (1 i xs)
  show ?case
  proof (cases "i < length xs")
    case True
    with "1" show ?thesis
      by (subst batchesFrom.simps) (simp add: slice_length_le)
  next
    case False
    then show ?thesis
      by (subst batchesFrom.simps) simp
  qed
qed

lemma batchesFrom_concat: "concat (batchesFrom i xs) = drop i xs"
proof (induction i xs rule: batchesFrom.induct)
  case (1 i xs)
  show ?case
  proof (cases "i < length xs")
    case True
    have "take BATCH_SIZE (drop i xs) @ drop (i + BATCH_SIZE) xs = drop i xs"
      by (metis add.commute append_take_drop_id drop_drop)
    with True "1" show ?thesis
      by (subst batchesFrom.simps) (simp add: slice_def)
  next
    case False
    then show ?thesis
      by (subst batchesFrom.simps) simp
  qed
qed

lemma batchesFrom_nonempty: "\<forall>b \<in> set (batchesFrom i xs). b \<noteq> []"
proof (induction i xs rule: batchesFrom.induct)
  case (1 i xs)
  show ?case
  proof (cases "i < length xs")
    case True
    with "1" show ?thesis
      by (subst batchesFrom.simps) (auto simp: slice_def BATCH_SIZE_def)
  next
    case False
    then show ?thesis
      by (subst batchesFrom.simps) simp
  qed
qed

lemma batches_1000:
  assumes "length xs = 1000"
  shows "map length (batchesFrom 0 xs) = [450, 450, 100]"
proof -
  have a: "batchesFrom 0 xs = slice 0 450 xs # batchesFrom 450 xs"
    using assms by (subst batchesFrom.simps) (simp add: BATCH_SIZE_def)
  have b: "batchesFrom 450 xs = slice 450 900 xs # batchesFrom 900 xs"
    using assms by (subst batchesFrom.simps) (simp add: BATCH_SIZE_def)
  have c: "batchesFrom 900 xs = slice 900 1350 xs # batchesFrom 1350 xs"
    using assms by (subst batchesFrom.simps) (simp add: BATCH_SIZE_def)
  have d: "batchesFrom 1350 xs = []"
    using assms by (subst batchesFrom.simps) simp
  show ?thesis
    using assms by (simp add: a b c d slice_def BATCH_SIZE_def)
qed

section \<open>Worked runs on the reference host\<close>

lemma refHost_sel:
  "parseFloat refHost = parseFloatModel" "parseInt refHost = parseIntModel 0"
  "parseInt10 refHost = parseIntModel 10" "newDate refHost = isoDateModel"
  "parseMDY refHost = mdyDateModel" "today refHost = ''2026-11-03''"
  by (simp_all add: refHost_def)

lemma header4_index:
  "indexOf [''shop id'', ''date'', ''amount'', ''payment mode''] ''shop id'' = 0"
  "indexOf [''shop id'', ''date'', ''amount'', ''payment mode''] ''date'' = 1"
  "indexOf [''shop id'', ''date'', ''amount'', ''payment mode''] ''amount'' = 2"
  "indexOf [''shop id'', ''date'', ''amount'', ''payment mode''] ''payment mode'' = 3"
  by code_simp+

lemma header5_index:
  "indexOf [''notes'', ''shop id'', ''date'', ''amount'', ''payment mode''] ''shop id'' = 1"
  "indexOf [''notes'', ''shop id'', ''date'', ''amount'', ''payment mode''] ''date'' = 2"
  "indexOf [''notes'', ''shop id'', ''date'', ''amount'', ''payment mode''] ''amount'' = 3"
  "indexOf [''notes'', ''shop id'', ''date'', ''amount'', ''payment mode''] ''payment mode'' = 4"
  by code_simp+

lemma parseFloatModel_samples:
  "parseFloatModel ''100.00'' = Num 100" "parseFloatModel ''-5'' = Num (- 5)"
  "parseFloatModel ''100'' = Num 100" "parseFloatModel ''50'' = Num 50"
  "parseFloatModel ''70'' = Num 70" "parseFloatModel ''20'' = Num 20"
  "parseFloatModel ''undefined'' = NaN"
  by (simp_all add: parseFloatModel_def signOf_def isSpace_def isDigit_def digitsValue_def
        digitValue_def exponentOf_def)

lemma isoDateModel_samples:
  "isoDateModel ''2023-01-01'' = Some ''2023-01-01''" "isoDateModel ''bad'' = None"
  "isoDateModel ''2023-01-02'' = Some ''2023-01-02''"
  "isoDateModel ''2023-01-03'' = Some ''2023-01-03''"
  by code_simp+

lemma mdyDateModel_samples:
  "mdyDateModel ''03/15/2025'' = Some ''2025-03-15''" "mdyDateModel ''bad'' = None"
  "mdyDateModel ''2023-01-01'' = None" "mdyDateModel ''2023-01-02'' = None"
  "mdyDateModel ''2023-01-03'' = None"
  by code_simp+

lemma generate_first:
  "generateWithdrawalId refHost [] = ''WD00001''" "generateDepositId refHost [] = ''DP00001''"
  "generateOrderId refHost [] = ''OR00001''"
  by code_simp+

lemma withdrawalPaymentMode_samples:
  "withdrawalPaymentMode (Some ''Crypto'') = Accepted Crypto"
  "withdrawalPaymentMode (Some ''Ewallet'') = Accepted Ewallet"
  "withdrawalPaymentMode (Some ''Unknown'') = Rejected"
  "withdrawalPaymentMode (Some ''btc'') = Accepted Crypto"
  "withdrawalPaymentMode None = Threw"
  by code_simp+

lemmas cell_defs = cellAt_def cellString_def clientNameOr_def agentOr_def refHost_sel
  parseFloatModel_samples isoDateModel_samples mdyDateModel_samples generate_first
  withdrawalPaymentMode_samples

lemma csvScenario_parse:
  "parseCsv withdrawalRequiredFields csvScenario
   = Inr ([''shop id'', ''date'', ''amount'', ''payment mode''],
          [''S1,2023-01-01,100.00,Crypto'', ''S2,bad,-5,Unknown''])"
  by code_simp

lemma csvShortRow_parse:
  "parseCsv withdrawalRequiredFields csvShortRow
   = Inr ([''shop id'', ''date'', ''amount'', ''payment mode''],
          [''S1,2023-01-01,100,Crypto'', ''S2,2023-01-02,50'', ''S3,2023-01-03,70,Ewallet''])"
  "parseCsv depositRequiredFields csvShortRow
   = Inr ([''shop id'', ''date'', ''amount'', ''payment mode''],
          [''S1,2023-01-01,100,Crypto'', ''S2,2023-01-02,50'', ''S3,2023-01-03,70,Ewallet''])"
  by code_simp+

lemma csvWideHeader_parse:
  "parseCsv withdrawalRequiredFields csvWideHeader
   = Inr ([''notes'', ''shop id'', ''date'', ''amount'', ''payment mode''], [''x,S1,2023-01-01,100''])"
  by code_simp

lemma line_cells:
  "trim ''S1,2023-01-01,100.00,Crypto'' \<noteq> []"
  "map trim (split (CHR '','') ''S1,2023-01-01,100.00,Crypto'')
   = [''S1'', ''2023-01-01'', ''100.00'', ''Crypto'']"
  "trim ''S2,bad,-5,Unknown'' \<noteq> []"
  "map trim (split (CHR '','') ''S2,bad,-5,Unknown'') = [''S2'', ''bad'', ''-5'', ''Unknown'']"
  "trim ''S1,2023-01-01,100,Crypto'' \<noteq> []"
  "map trim (split (CHR '','') ''S1,2023-01-01,100,Crypto'')
   = [''S1'', ''2023-01-01'', ''100'', ''Crypto'']"
  "trim ''S2,2023-01-02,50'' \<noteq> []"
  "map trim (split (CHR '','') ''S2,2023-01-02,50'') = [''S2'', ''2023-01-02'', ''50'']"
  "trim ''S3,2023-01-03,70,Ewallet'' \<noteq> []"
  "map trim (split (CHR '','') ''S3,2023-01-03,70,Ewallet'')
   = [''S3'', ''2023-01-03'', ''70'', ''Ewallet'']"
  "trim ''x,S1,2023-01-01,100'' \<noteq> []"
  "map trim (split (CHR '','') ''x,S1,2023-01-01,100'') = [''x'', ''S1'', ''2023-01-01'', ''100'']"
  by code_simp+

lemma withdrawalRow_short:
  "withdrawalRow refHost [] [] 0 1 2 3 ''S1,2023-01-01,100,Crypto''
   = Accepted \<lparr> withdrawalId = ''WD00001'', withdrawal_shopId = Some ''S1'',
       withdrawal_clientName = ''Unknown Client'', withdrawal_agent = ''Unknown Agent'',
       withdrawal_date = ''2023-01-01'', withdrawal_amount = Num 100,
       withdrawal_paymentMode = Crypto \<rparr>"
  "withdrawalRow refHost [] [] 0 1 2 3 ''S2,2023-01-02,50'' = Threw"
  unfolding withdrawalRow_def
  by (simp_all only: line_cells if_False) (simp_all add: withdrawalCells_def cell_defs)

lemma depositRow_short:
  "depositRow refHost [clientS1, clientS3] [] 0 1 2 3 ''S1,2023-01-01,100,Crypto''
   = Accepted \<lparr> depositId = ''DP00001'', deposit_shopId = Some ''S1'',
       deposit_clientName = ''Alice'', deposit_agent = ''Bob'',
       deposit_date = ''2026-11-03'', deposit_amount = Num 100,
       deposit_paymentMode = Crypto \<rparr>"
  "depositRow refHost [clientS1, clientS3] [] 0 1 2 3 ''S2,2023-01-02,50'' = Rejected"
  "depositRow refHost [clientS1, clientS3] [] 0 1 2 3 ''S3,2023-01-03,70,Ewallet''
   = Accepted \<lparr> depositId = ''DP00001'', deposit_shopId = Some ''S3'',
       deposit_clientName = ''Carol'', deposit_agent = ''Dan'',
       deposit_date = ''2026-11-03'', deposit_amount = Num 70,
       deposit_paymentMode = Ewallet \<rparr>"
  unfolding depositRow_def
  by (simp_all only: line_cells if_False Let_def)
     (simp_all add: cell_defs clientS1_def clientS3_def exactPaymentMode_def)

text \<open>
  Claim C1 (not met by the withdrawal flow). On \<open>csvShortRow\<close> the three data rows are
  one valid row, one row without a payment-mode cell and one more valid row. The
  withdrawal import hands the first row to the store, raises on the second and ends in
  its \<^verbatim>\<open>catch\<close> block: no counter is published and the third row is never read. The
  deposit import, on the same text, counts the short row as an error and reports 2 and 1.
\<close>

theorem withdrawal_short_row_interrupts:
  "withdrawalImport refHost [] [] csvShortRow
   = ProcessingError
       [\<lparr> withdrawalId = ''WD00001'', withdrawal_shopId = Some ''S1'',
          withdrawal_clientName = ''Unknown Client'', withdrawal_agent = ''Unknown Agent'',
          withdrawal_date = ''2023-01-01'', withdrawal_amount = Num 100,
          withdrawal_paymentMode = Crypto \<rparr>]
   \<and> depositImport refHost [clientS1, clientS3] [] csvShortRow
     = Imported 2 1
         [\<lparr> depositId = ''DP00001'', deposit_shopId = Some ''S1'',
            deposit_clientName = ''Alice'', deposit_agent = ''Bob'',
            deposit_date = ''2026-11-03'', deposit_amount = Num 100,
            deposit_paymentMode = Crypto \<rparr>,
          \<lparr> depositId = ''DP00001'', deposit_shopId = Some ''S3'',
            deposit_clientName = ''Carol'', deposit_agent = ''Dan'',
            deposit_date = ''2026-11-03'', deposit_amount = Num 70,
            deposit_paymentMode = Ewallet \<rparr>]"
  by (simp add: withdrawalImport_def depositImport_def csvShortRow_parse header4_index
        withdrawalRow_short depositRow_short)

text \<open>
  Claim C10 (not met when the header is wider than four columns). On \<open>csvWideHeader\<close> the
  row has four cells, so it passes \<^verbatim>\<open>values.length < 4\<close>; the payment-mode column is at
  index 4, the cell read there is \<^verbatim>\<open>undefined\<close>, and \<^verbatim>\<open>.trim()\<close> on it raises: the
  import ends in its \<^verbatim>\<open>catch\<close> block.
\<close>

theorem batched_guard_misses_wide_header:
  "length (map trim (split (CHR '','') ''x,S1,2023-01-01,100'')) = 4
   \<and> indexOf (csvHeader csvWideHeader) ''payment mode'' = 4
   \<and> cellAt (map trim (split (CHR '','') ''x,S1,2023-01-01,100'')) 4 = None
   \<and> withdrawalRowBatched refHost [] [] 1 2 3 4 ''x,S1,2023-01-01,100'' = Threw
   \<and> withdrawalImportBatched refHost [] [] csvWideHeader = ProcessingError []"
proof -
  have row: "withdrawalRowBatched refHost [] [] 1 2 3 4 ''x,S1,2023-01-01,100'' = Threw"
    unfolding withdrawalRowBatched_def
    by (simp only: line_cells if_False Let_def) (simp add: withdrawalCells_def cell_defs)
  have hdr: "csvHeader csvWideHeader = [''notes'', ''shop id'', ''date'', ''amount'', ''payment mode'']"
    by code_simp
  show ?thesis
    by (simp add: row hdr withdrawalImportBatched_def csvWideHeader_parse header5_index
          line_cells cellAt_def)
qed

section \<open>Row validation: proofs\<close>

lemma withdrawalCells_not_Blank:
  "withdrawalCells h clients withdrawals si di ai mi cells \<noteq> Blank"
  by (simp add: withdrawalCells_def Let_def split: row_result.splits)

lemma orderRow_Blank:
  "orderRow h clients orders si di li ri sti line = Blank \<longleftrightarrow> trim line = []"
  by (simp add: orderRow_def Let_def split: option.splits)

lemma depositRow_Blank:
  "depositRow h clients deposits si di ai mi line = Blank \<longleftrightarrow> trim line = []"
  by (simp add: depositRow_def Let_def split: option.splits)

lemma withdrawalRow_Blank:
  "withdrawalRow h clients withdrawals si di ai mi line = Blank \<longleftrightarrow> trim line = []"
  by (simp add: withdrawalRow_def withdrawalCells_not_Blank)

lemma withdrawalRowBatched_Blank:
  "withdrawalRowBatched h clients withdrawals si di ai mi line = Blank \<longleftrightarrow> trim line = []"
  by (simp add: withdrawalRowBatched_def Let_def withdrawalCells_not_Blank)

lemma agentRow_Blank:
  "agentRow h k1 k2 k3 k4 line = Blank \<longleftrightarrow> trim line = []"
  by (simp add: agentRow_def Let_def split: option.splits)

lemma orderRow_no_throw: "orderRow h clients orders si di li ri sti line \<noteq> Threw"
  by (simp add: orderRow_def Let_def split: option.splits)

lemma depositRow_no_throw: "depositRow h clients deposits si di ai mi line \<noteq> Threw"
  by (simp add: depositRow_def Let_def split: option.splits)

lemma agentRow_no_throw: "agentRow h k1 k2 k3 k4 line \<noteq> Threw"
  by (simp add: agentRow_def Let_def split: option.splits)

text \<open>
  The order and deposit imports on a well-formed input: with \<open>N\<close> data rows of which \<open>V\<close>
  are accepted, the outcome is \<open>V\<close> successes, \<open>N - V\<close> errors and the \<open>V\<close> records.
\<close>

lemma orderImport_counts:
  fixes h :: host and clients :: "Client list" and orders :: "Order list" and csvData :: string
  assumes "2 \<le> length (csvLines csvData)" and "missingFields orderRequiredFields csvData = []"
  defines "header \<equiv> csvHeader csvData"
  defines "row \<equiv> orderRow h clients orders (indexOf header ''shop id'') (indexOf header ''date'')
                    (indexOf header ''location'') (indexOf header ''price'')
                    (indexOf header ''status'')"
  defines "rows \<equiv> tl (csvLines csvData)"
  shows "orderImport h clients orders csvData
         = Imported (length (acceptedRecords row rows))
             (length (dataRows rows) - length (acceptedRecords row rows))
             (acceptedRecords row rows)"
proof -
  have nt: "\<forall>l \<in> set rows. row l \<noteq> Threw"
    by (simp add: row_def orderRow_no_throw)
  have bl: "\<forall>l \<in> set rows. row l = Blank \<longleftrightarrow> trim l = []"
    by (simp add: row_def orderRow_Blank)
  have "length (dataRows rows) - length (acceptedRecords row rows) = length (rejectedRows row rows)"
    using rows_partition [OF nt bl] by simp
  then show ?thesis
    using parseCsv_ok [OF assms(1,2)] processRows_no_throw [OF nt, of 0 0 "[]"]
    by (simp add: orderImport_def header_def row_def rows_def)
qed

lemma depositImport_counts:
  fixes h :: host and clients :: "Client list" and deposits :: "Deposit list"
    and csvData :: string
  assumes "2 \<le> length (csvLines csvData)" and "missingFields depositRequiredFields csvData = []"
  defines "header \<equiv> csvHeader csvData"
  defines "row \<equiv> depositRow h clients deposits (indexOf header ''shop id'')
                    (indexOf header ''date'') (indexOf header ''amount'')
                    (indexOf header ''payment mode'')"
  defines "rows \<equiv> tl (csvLines csvData)"
  shows "depositImport h clients deposits csvData
         = Imported (length (acceptedRecords row rows))
             (length (dataRows rows) - length (acceptedRecords row rows))
             (acceptedRecords row rows)"
proof -
  have nt: "\<forall>l \<in> set rows. row l \<noteq> Threw"
    by (simp add: row_def depositRow_no_throw)
  have bl: "\<forall>l \<in> set rows. row l = Blank \<longleftrightarrow> trim l = []"
    by (simp add: row_def depositRow_Blank)
  have "length (dataRows rows) - length (acceptedRecords row rows) = length (rejectedRows row rows)"
    using rows_partition [OF nt bl] by simp
  then show ?thesis
    using parseCsv_ok [OF assms(1,2)] processRows_no_throw [OF nt, of 0 0 "[]"]
    by (simp add: depositImport_def header_def row_def rows_def)
qed

lemma csvBlankLine_parse:
  "parseCsv depositRequiredFields csvBlankLine
   = Inr ([''shop id'', ''date'', ''amount'', ''payment mode''],
          [''S1,03/15/2025,100,Crypto'', ''   '', ''S9,03/16/2025,20,Crypto''])"
  "tl (csvLines csvBlankLine) = [''S1,03/15/2025,100,Crypto'', ''   '', ''S9,03/16/2025,20,Crypto'']"
  by code_simp+

lemma blank_line_cells:
  "trim ''S1,03/15/2025,100,Crypto'' \<noteq> []"
  "map trim (split (CHR '','') ''S1,03/15/2025,100,Crypto'')
   = [''S1'', ''03/15/2025'', ''100'', ''Crypto'']"
  "trim ''   '' = []"
  "trim ''S9,03/16/2025,20,Crypto'' \<noteq> []"
  "map trim (split (CHR '','') ''S9,03/16/2025,20,Crypto'')
   = [''S9'', ''03/16/2025'', ''20'', ''Crypto'']"
  by code_simp+

lemma depositRow_blank_run:
  "depositRow refHost [clientS1] [] 0 1 2 3 ''S1,03/15/2025,100,Crypto''
   = Accepted \<lparr> depositId = ''DP00001'', deposit_shopId = Some ''S1'',
       deposit_clientName = ''Alice'', deposit_agent = ''Bob'',
       deposit_date = ''2025-03-15'', deposit_amount = Num 100,
       deposit_paymentMode = Crypto \<rparr>"
  "depositRow refHost [clientS1] [] 0 1 2 3 ''   '' = Blank"
  "depositRow refHost [clientS1] [] 0 1 2 3 ''S9,03/16/2025,20,Crypto'' = Rejected"
  unfolding depositRow_def
  by (simp_all only: blank_line_cells if_False if_True Let_def)
     (simp_all add: cell_defs clientS1_def exactPaymentMode_def)

lemma depositImport_blank_run:
  "depositImport refHost [clientS1] [] csvBlankLine
   = Imported 1 1
       [\<lparr> depositId = ''DP00001'', deposit_shopId = Some ''S1'',
          deposit_clientName = ''Alice'', deposit_agent = ''Bob'',
          deposit_date = ''2025-03-15'', deposit_amount = Num 100,
          deposit_paymentMode = Crypto \<rparr>]"
  by (simp add: depositImport_def csvBlankLine_parse header4_index depositRow_blank_run)

text \<open>
  Claim C9. In each of the five flows a blank or whitespace-only line leaves both counters
  and the records as they were; so the counters can sum to fewer than the number of
  lines after the header: on \<open>csvBlankLine\<close>, three lines after the header, the deposit
  import reports 1 success and 1 error.
\<close>

theorem blank_lines_skipped:
  "(trim line = [] \<longrightarrow>
      processRows (orderRow h clients orders si di li ri sti) (line # rest) s e oacc
        = processRows (orderRow h clients orders si di li ri sti) rest s e oacc
      \<and> processRows (depositRow h clients deposits si di ai mi) (line # rest) s e dacc
        = processRows (depositRow h clients deposits si di ai mi) rest s e dacc
      \<and> processRows (withdrawalRow h clients withdrawals si di ai mi) (line # rest) s e wacc
        = processRows (withdrawalRow h clients withdrawals si di ai mi) rest s e wacc
      \<and> processRows (withdrawalRowBatched h clients withdrawals si di ai mi) (line # rest) s e wacc
        = processRows (withdrawalRowBatched h clients withdrawals si di ai mi) rest s e wacc
      \<and> processRows (agentRow h k1 k2 k3 k4) (line # rest) s e aacc
        = processRows (agentRow h k1 k2 k3 k4) rest s e aacc)
   \<and> length (tl (csvLines csvBlankLine)) = 3
   \<and> (\<exists>recs. depositImport refHost [clientS1] [] csvBlankLine = Imported 1 1 recs)"
proof -
  have "trim line = [] \<Longrightarrow> orderRow h clients orders si di li ri sti line = Blank"
    and "trim line = [] \<Longrightarrow> depositRow h clients deposits si di ai mi line = Blank"
    and "trim line = [] \<Longrightarrow> withdrawalRow h clients withdrawals si di ai mi line = Blank"
    and "trim line = [] \<Longrightarrow> withdrawalRowBatched h clients withdrawals si di ai mi line = Blank"
    and "trim line = [] \<Longrightarrow> agentRow h k1 k2 k3 k4 line = Blank"
    by (simp_all add: orderRow_Blank depositRow_Blank withdrawalRow_Blank
          withdrawalRowBatched_Blank agentRow_Blank)
  then show ?thesis
    by (simp add: depositImport_blank_run csvBlankLine_parse)
qed

theorem blank_lines_skipped_witness:
  "trim ''   '' = []
   \<and> processRows (depositRow refHost [clientS1] [] 0 1 2 3)
        [''   '', ''S9,03/16/2025,20,Crypto''] 1 0 []
     = processRows (depositRow refHost [clientS1] [] 0 1 2 3) [''S9,03/16/2025,20,Crypto''] 1 0 []
   \<and> processRows (depositRow refHost [clientS1] [] 0 1 2 3)
        [''   '', ''S9,03/16/2025,20,Crypto''] 1 0 []
     = Finished 1 1 []"
  using blank_lines_skipped [where line = "''   ''" and h = refHost and clients = "[clientS1]"
          and deposits = "[]" and si = 0 and di = 1 and ai = 2 and mi = 3
          and rest = "[''S9,03/16/2025,20,Crypto'']" and s = 1 and e = 0 and dacc = "[]"]
  by (simp add: blank_line_cells depositRow_blank_run)

section \<open>Unknown shop IDs\<close>

lemma verdict_simps:
  "verdict Blank = Blank" "verdict Rejected = Rejected" "verdict Threw = Threw"
  "verdict (Accepted r) = Accepted ()"
  by (simp_all add: verdict_def)

lemma withdrawalCells_clients:
  "verdict (withdrawalCells h clients withdrawals si di ai mi cells)
   = verdict (withdrawalCells h [] withdrawals si di ai mi cells)"
  by (simp add: withdrawalCells_def Let_def verdict_simps split: row_result.splits)

lemma withdrawalCells_placeholders:
  assumes "find (\<lambda>c. Some (shopId c) = cellAt cells si) clients = None"
    and "withdrawalCells h clients withdrawals si di ai mi cells = Accepted r"
  shows "withdrawal_clientName r = ''Unknown Client'' \<and> withdrawal_agent r = ''Unknown Agent''"
  using assms
  by (auto simp: withdrawalCells_def Let_def clientNameOr_def agentOr_def
           split: if_splits row_result.splits)

lemma scenario_rows:
  assumes "parseFloat h ''100.00'' = Num 100" and "parseFloat h ''-5'' = Num (- 5)"
  shows "withdrawalCells h [] withdrawals 0 1 2 3 [''S1'', ''2023-01-01'', ''100.00'', ''Crypto'']
         = Accepted (scenarioRecord h withdrawals)"
    and "withdrawalCells h [] withdrawals 0 1 2 3 [''S2'', ''bad'', ''-5'', ''Unknown''] = Rejected"
  using assms
  by (simp_all add: withdrawalCells_def cellAt_def cellString_def clientNameOr_def agentOr_def
        withdrawalPaymentMode_samples scenarioRecord_def)

lemma scenario_run:
  assumes "parseFloat h ''100.00'' = Num 100" and "parseFloat h ''-5'' = Num (- 5)"
  shows "withdrawalImport h [] withdrawals csvScenario
         = Imported 1 1 [scenarioRecord h withdrawals]"
    and "withdrawalImportBatched h [] withdrawals csvScenario
         = Imported 1 1 [[scenarioRecord h withdrawals]]"
proof -
  have r1: "withdrawalRow h [] withdrawals 0 1 2 3 ''S1,2023-01-01,100.00,Crypto''
            = Accepted (scenarioRecord h withdrawals)"
    and r2: "withdrawalRow h [] withdrawals 0 1 2 3 ''S2,bad,-5,Unknown'' = Rejected"
    unfolding withdrawalRow_def
    by (simp_all only: line_cells if_False scenario_rows [OF assms])
  have b1: "withdrawalRowBatched h [] withdrawals 0 1 2 3 ''S1,2023-01-01,100.00,Crypto''
            = Accepted (scenarioRecord h withdrawals)"
    and b2: "withdrawalRowBatched h [] withdrawals 0 1 2 3 ''S2,bad,-5,Unknown'' = Rejected"
    unfolding withdrawalRowBatched_def
    by (simp_all only: line_cells if_False Let_def scenario_rows [OF assms]) simp_all
  have one: "commitBatches [x] = [[x]]" for x :: Withdrawal
    unfolding commitBatches_def
    by (subst batchesFrom.simps, subst batchesFrom.simps) (simp add: slice_def BATCH_SIZE_def)
  show "withdrawalImport h [] withdrawals csvScenario
         = Imported 1 1 [scenarioRecord h withdrawals]"
    by (simp add: withdrawalImport_def csvScenario_parse header4_index r1 r2)
  show "withdrawalImportBatched h [] withdrawals csvScenario
         = Imported 1 1 [[scenarioRecord h withdrawals]]"
    by (simp add: withdrawalImportBatched_def csvScenario_parse header4_index b1 b2 one)
qed

text \<open>
  Claim C5. The withdrawal flows never reject a row for its shop ID: what a row comes to
  is the same with the client list emptied, and an accepted row whose shop ID matches
  no client carries the names \<^verbatim>\<open>Unknown Client\<close> and \<^verbatim>\<open>Unknown Agent\<close>. The deposit and order
  flows reject such a row and add one to the error counter. On the scenario of the
  specification (no clients, the rows \<^verbatim>\<open>S1,2023-01-01,100.00,Crypto\<close> and
  \<^verbatim>\<open>S2,bad,-5,Unknown\<close>) both withdrawal imports end with 1 success, 1 error and the one
  record of amount 100 with the placeholder names.
\<close>

theorem unknown_shop_tolerance:
  "verdict (withdrawalRow h clients withdrawals si di ai mi line)
     = verdict (withdrawalRow h [] withdrawals si di ai mi line)
   \<and> verdict (withdrawalRowBatched h clients withdrawals si di ai mi line)
     = verdict (withdrawalRowBatched h [] withdrawals si di ai mi line)
   \<and> (clientOfLine clients line si = None
        \<and> (withdrawalRow h clients withdrawals si di ai mi line = Accepted r
            \<or> withdrawalRowBatched h clients withdrawals si di ai mi line = Accepted r)
      \<longrightarrow> withdrawal_clientName r = ''Unknown Client''
          \<and> withdrawal_agent r = ''Unknown Agent'')
   \<and> (trim line \<noteq> [] \<and> clientOfLine clients line si = None
      \<longrightarrow> depositRow h clients deposits si di ai mi line = Rejected
          \<and> orderRow h clients orders si di li ri sti line = Rejected
          \<and> processRows (depositRow h clients deposits si di ai mi) (line # rest) s e dacc
            = processRows (depositRow h clients deposits si di ai mi) rest s (e + 1) dacc
          \<and> processRows (orderRow h clients orders si di li ri sti) (line # rest) s e oacc
            = processRows (orderRow h clients orders si di li ri sti) rest s (e + 1) oacc)
   \<and> (parseFloat h ''100.00'' = Num 100 \<and> parseFloat h ''-5'' = Num (- 5)
      \<longrightarrow> withdrawalImport h [] withdrawals csvScenario
            = Imported 1 1 [scenarioRecord h withdrawals]
          \<and> withdrawalImportBatched h [] withdrawals csvScenario
            = Imported 1 1 [[scenarioRecord h withdrawals]]
          \<and> withdrawal_amount (scenarioRecord h withdrawals) = Num 100
          \<and> withdrawal_clientName (scenarioRecord h withdrawals) = ''Unknown Client''
          \<and> withdrawal_agent (scenarioRecord h withdrawals) = ''Unknown Agent'')"
proof -
  have v1: "verdict (withdrawalRow h clients withdrawals si di ai mi line)
     = verdict (withdrawalRow h [] withdrawals si di ai mi line)"
    using withdrawalCells_clients [of h clients] by (simp add: withdrawalRow_def)
  have v2: "verdict (withdrawalRowBatched h clients withdrawals si di ai mi line)
     = verdict (withdrawalRowBatched h [] withdrawals si di ai mi line)"
    using withdrawalCells_clients [of h clients] by (simp add: withdrawalRowBatched_def Let_def)
  have ph: "clientOfLine clients line si = None
        \<and> (withdrawalRow h clients withdrawals si di ai mi line = Accepted r
            \<or> withdrawalRowBatched h clients withdrawals si di ai mi line = Accepted r)
      \<longrightarrow> withdrawal_clientName r = ''Unknown Client''
          \<and> withdrawal_agent r = ''Unknown Agent''"
    using withdrawalCells_placeholders [of "map trim (split (CHR '','') line)" si clients h
            withdrawals di ai mi r]
    by (auto simp: clientOfLine_def withdrawalRow_def withdrawalRowBatched_def Let_def
             split: if_splits)
  have rej: "trim line \<noteq> [] \<and> clientOfLine clients line si = None
      \<longrightarrow> depositRow h clients deposits si di ai mi line = Rejected
          \<and> orderRow h clients orders si di li ri sti line = Rejected"
    by (simp add: clientOfLine_def depositRow_def orderRow_def Let_def)
  have sc: "parseFloat h ''100.00'' = Num 100 \<and> parseFloat h ''-5'' = Num (- 5)
      \<longrightarrow> withdrawalImport h [] withdrawals csvScenario
            = Imported 1 1 [scenarioRecord h withdrawals]
          \<and> withdrawalImportBatched h [] withdrawals csvScenario
            = Imported 1 1 [[scenarioRecord h withdrawals]]"
    using scenario_run [of h withdrawals] by blast
  have fields: "withdrawal_amount (scenarioRecord h withdrawals) = Num 100
          \<and> withdrawal_clientName (scenarioRecord h withdrawals) = ''Unknown Client''
          \<and> withdrawal_agent (scenarioRecord h withdrawals) = ''Unknown Agent''"
    by (simp add: scenarioRecord_def)
  show ?thesis
    using v1 v2 ph rej sc fields by simp
qed

lemma clientOfLine_S9: "clientOfLine [clientS1] ''S9,03/16/2025,20,Crypto'' 0 = None"
  by code_simp

theorem unknown_shop_tolerance_witness:
  "parseFloat refHost ''100.00'' = Num 100 \<and> parseFloat refHost ''-5'' = Num (- 5)
   \<and> withdrawalImport refHost [] [] csvScenario
     = Imported 1 1
         [\<lparr> withdrawalId = ''WD00001'', withdrawal_shopId = Some ''S1'',
            withdrawal_clientName = ''Unknown Client'', withdrawal_agent = ''Unknown Agent'',
            withdrawal_date = ''2023-01-01'', withdrawal_amount = Num 100,
            withdrawal_paymentMode = Crypto \<rparr>]
   \<and> withdrawalImportBatched refHost [] [] csvScenario
     = Imported 1 1
         [[\<lparr> withdrawalId = ''WD00001'', withdrawal_shopId = Some ''S1'',
             withdrawal_clientName = ''Unknown Client'', withdrawal_agent = ''Unknown Agent'',
             withdrawal_date = ''2023-01-01'', withdrawal_amount = Num 100,
             withdrawal_paymentMode = Crypto \<rparr>]]
   \<and> trim ''S9,03/16/2025,20,Crypto'' \<noteq> []
   \<and> clientOfLine [clientS1] ''S9,03/16/2025,20,Crypto'' 0 = None
   \<and> depositRow refHost [clientS1] [] 0 1 2 3 ''S9,03/16/2025,20,Crypto'' = Rejected
   \<and> processRows (depositRow refHost [clientS1] [] 0 1 2 3) [''S9,03/16/2025,20,Crypto''] 1 0 []
     = Finished 1 1 []"
  using unknown_shop_tolerance [where h = refHost and withdrawals = "[]" and clients = "[clientS1]"
          and line = "''S9,03/16/2025,20,Crypto''" and si = 0 and di = 1 and ai = 2 and mi = 3
          and deposits = "[]" and rest = "[]" and s = 1 and e = 0 and dacc = "[]"]
  by (simp add: cell_defs scenarioRecord_def clientOfLine_S9 blank_line_cells)

section \<open>Amounts and prices\<close>

lemma ltZero_leZero: "ltZero x \<Longrightarrow> leZero x"
  by (cases x) simp_all

lemma committed_finish: "committed (finish run) = runRecords run"
  by (cases run) simp_all

lemma withdrawalCells_amount:
  "withdrawalCells h clients withdrawals si di ai mi cells = Accepted r
   \<Longrightarrow> \<not> isNaN (withdrawal_amount r) \<and> \<not> leZero (withdrawal_amount r)"
  by (auto simp: withdrawalCells_def Let_def split: if_splits row_result.splits)

lemma withdrawalRow_amount:
  "withdrawalRow h clients withdrawals si di ai mi line = Accepted r
   \<Longrightarrow> \<not> isNaN (withdrawal_amount r) \<and> \<not> leZero (withdrawal_amount r)"
  using withdrawalCells_amount [of h clients withdrawals si di ai mi _ r]
  by (auto simp: withdrawalRow_def split: if_splits)

lemma withdrawalRowBatched_amount:
  "withdrawalRowBatched h clients withdrawals si di ai mi line = Accepted r
   \<Longrightarrow> \<not> isNaN (withdrawal_amount r) \<and> \<not> leZero (withdrawal_amount r)"
  using withdrawalCells_amount [of h clients withdrawals si di ai mi _ r]
  by (auto simp: withdrawalRowBatched_def Let_def split: if_splits)

lemma depositRow_amount:
  "depositRow h clients deposits si di ai mi line = Accepted r
   \<Longrightarrow> \<not> isNaN (deposit_amount r) \<and> \<not> leZero (deposit_amount r)"
  by (auto simp: depositRow_def Let_def split: if_splits option.splits)

lemma orderRow_price:
  "orderRow h clients orders si di li ri sti line = Accepted r
   \<Longrightarrow> \<not> isNaN (order_price r) \<and> \<not> leZero (order_price r)"
  by (auto simp: orderRow_def Let_def split: if_splits option.splits)

lemma agentRow_total:
  "agentRow h k1 k2 k3 k4 line = Accepted r
   \<Longrightarrow> \<not> isNaN (totalDeposits r) \<and> \<not> ltZero (totalDeposits r)"
  by (auto simp: agentRow_def Let_def split: if_splits option.splits)

lemma bad_amount_rows:
  assumes "trim line \<noteq> []" and "isNaN (amountCell h line ai) \<or> ltZero (amountCell h line ai)"
  shows "withdrawalRow h clients withdrawals si di ai mi line = Rejected"
    and "withdrawalRowBatched h clients withdrawals si di ai mi line = Rejected"
    and "depositRow h clients deposits si di ai mi line = Rejected"
    and "orderRow h clients orders si di li ai sti line = Rejected"
    and "agentRow h k1 k2 k3 ai line = Rejected"
  using assms ltZero_leZero [of "amountCell h line ai"]
  by (auto simp: amountCell_def withdrawalRow_def withdrawalRowBatched_def withdrawalCells_def
        depositRow_def orderRow_def agentRow_def Let_def split: option.splits)

lemma commitBatches_set: "b \<in> set (commitBatches all) \<Longrightarrow> r \<in> set b \<Longrightarrow> r \<in> set all"
proof -
  assume "b \<in> set (commitBatches all)" and "r \<in> set b"
  then have "r \<in> set (concat (commitBatches all))" by auto
  moreover have "concat (commitBatches all) = all"
    by (simp add: commitBatches_def batchesFrom_concat)
  ultimately show ?thesis by simp
qed

lemma order_committed:
  "\<forall>r \<in> set (committed (orderImport h clients orders csvData)).
      \<not> isNaN (order_price r) \<and> \<not> leZero (order_price r)"
proof -
  have "\<forall>r \<in> set (runRecords (processRows (orderRow h clients orders si di li ri sti) rows 0 0 [])).
          \<not> isNaN (order_price r) \<and> \<not> leZero (order_price r)" for si di li ri sti rows
    by (rule processRows_invariant) (simp_all add: orderRow_price)
  then show ?thesis
    by (simp add: orderImport_def committed_finish split: sum.splits)
qed

lemma deposit_committed:
  "\<forall>r \<in> set (committed (depositImport h clients deposits csvData)).
      \<not> isNaN (deposit_amount r) \<and> \<not> leZero (deposit_amount r)"
proof -
  have "\<forall>r \<in> set (runRecords (processRows (depositRow h clients deposits si di ai mi) rows 0 0 [])).
          \<not> isNaN (deposit_amount r) \<and> \<not> leZero (deposit_amount r)" for si di ai mi rows
    by (rule processRows_invariant) (simp_all add: depositRow_amount)
  then show ?thesis
    by (simp add: depositImport_def committed_finish split: sum.splits)
qed

lemma withdrawal_committed:
  "\<forall>r \<in> set (committed (withdrawalImport h clients withdrawals csvData)).
      \<not> isNaN (withdrawal_amount r) \<and> \<not> leZero (withdrawal_amount r)"
proof -
  have "\<forall>r \<in> set (runRecords
                      (processRows (withdrawalRow h clients withdrawals si di ai mi) rows 0 0 [])).
          \<not> isNaN (withdrawal_amount r) \<and> \<not> leZero (withdrawal_amount r)" for si di ai mi rows
    by (rule processRows_invariant) (simp_all add: withdrawalRow_amount)
  then show ?thesis
    by (simp add: withdrawalImport_def committed_finish split: sum.splits)
qed

lemma withdrawalBatched_committed:
  "\<forall>b \<in> set (committed (withdrawalImportBatched h clients withdrawals csvData)).
      \<forall>r \<in> set b. \<not> isNaN (withdrawal_amount r) \<and> \<not> leZero (withdrawal_amount r)"
proof -
  have inv: "\<forall>r \<in> set (runRecords
                      (processRows (withdrawalRowBatched h clients withdrawals si di ai mi) rows 0 0 [])).
          \<not> isNaN (withdrawal_amount r) \<and> \<not> leZero (withdrawal_amount r)" for si di ai mi rows
    by (rule processRows_invariant) (simp_all add: withdrawalRowBatched_amount)
  show ?thesis
  proof (cases "parseCsv withdrawalRequiredFields csvData")
    case (Inl m)
    then show ?thesis by (simp add: withdrawalImportBatched_def)
  next
    case (Inr p)
    obtain header rows where p: "p = (header, rows)" by (cases p)
    let ?run = "processRows (withdrawalRowBatched h clients withdrawals (indexOf header ''shop id'')
                     (indexOf header ''date'') (indexOf header ''amount'')
                     (indexOf header ''payment mode'')) rows 0 0 []"
    show ?thesis
    proof (cases ?run)
      case (Finished s e all)
      with inv [of "indexOf header ''shop id''" "indexOf header ''date''"
                 "indexOf header ''amount''" "indexOf header ''payment mode''" rows]
      have "\<forall>r \<in> set all. \<not> isNaN (withdrawal_amount r) \<and> \<not> leZero (withdrawal_amount r)"
        by simp
      with Finished Inr p show ?thesis
        by (auto simp: withdrawalImportBatched_def dest: commitBatches_set)
    next
      case (Interrupted s e all)
      with Inr p show ?thesis by (simp add: withdrawalImportBatched_def)
    qed
  qed
qed

lemma agent_committed:
  "\<forall>r \<in> set (committed (agentImport h csvData)).
      \<not> isNaN (totalDeposits r) \<and> \<not> ltZero (totalDeposits r)"
proof -
  have "\<forall>r \<in> set (runRecords (processRows (agentRow h k1 k2 k3 k4) rows 0 0 [])).
          \<not> isNaN (totalDeposits r) \<and> \<not> ltZero (totalDeposits r)" for k1 k2 k3 k4 rows
    by (rule processRows_invariant) (simp_all add: agentRow_total)
  then show ?thesis
    by (simp add: agentImport_def committed_finish split: sum.splits)
qed

text \<open>
  Claim C6. In each of the five flows a non-blank row whose amount (price, total deposits)
  cell parses to \<^verbatim>\<open>NaN\<close> or to a negative number is rejected, and the loop adds one to the
  error counter and no record; and no record committed by any import carries an amount
  that is \<^verbatim>\<open>NaN\<close> or negative.
\<close>

theorem bad_amount_rejected:
  "(trim line \<noteq> [] \<and> (isNaN (amountCell h line ai) \<or> ltZero (amountCell h line ai)) \<longrightarrow>
      withdrawalRow h clients withdrawals si di ai mi line = Rejected
      \<and> withdrawalRowBatched h clients withdrawals si di ai mi line = Rejected
      \<and> depositRow h clients deposits si di ai mi line = Rejected
      \<and> orderRow h clients orders si di li ai sti line = Rejected
      \<and> agentRow h k1 k2 k3 ai line = Rejected
      \<and> processRows (withdrawalRow h clients withdrawals si di ai mi) (line # rest) s e wacc
        = processRows (withdrawalRow h clients withdrawals si di ai mi) rest s (e + 1) wacc
      \<and> processRows (withdrawalRowBatched h clients withdrawals si di ai mi) (line # rest) s e wacc
        = processRows (withdrawalRowBatched h clients withdrawals si di ai mi) rest s (e + 1) wacc
      \<and> processRows (depositRow h clients deposits si di ai mi) (line # rest) s e dacc
        = processRows (depositRow h clients deposits si di ai mi) rest s (e + 1) dacc
      \<and> processRows (orderRow h clients orders si di li ai sti) (line # rest) s e oacc
        = processRows (orderRow h clients orders si di li ai sti) rest s (e + 1) oacc
      \<and> processRows (agentRow h k1 k2 k3 ai) (line # rest) s e aacc
        = processRows (agentRow h k1 k2 k3 ai) rest s (e + 1) aacc)
   \<and> (\<forall>r \<in> set (committed (orderImport h clients orders csvData)).
        \<not> isNaN (order_price r) \<and> \<not> ltZero (order_price r))
   \<and> (\<forall>r \<in> set (committed (depositImport h clients deposits csvData)).
        \<not> isNaN (deposit_amount r) \<and> \<not> ltZero (deposit_amount r))
   \<and> (\<forall>r \<in> set (committed (withdrawalImport h clients withdrawals csvData)).
        \<not> isNaN (withdrawal_amount r) \<and> \<not> ltZero (withdrawal_amount r))
   \<and> (\<forall>b \<in> set (committed (withdrawalImportBatched h clients withdrawals csvData)).
        \<forall>r \<in> set b. \<not> isNaN (withdrawal_amount r) \<and> \<not> ltZero (withdrawal_amount r))
   \<and> (\<forall>r \<in> set (committed (agentImport h csvData)).
        \<not> isNaN (totalDeposits r) \<and> \<not> ltZero (totalDeposits r))"
proof -
  have rows: "trim line \<noteq> [] \<and> (isNaN (amountCell h line ai) \<or> ltZero (amountCell h line ai)) \<longrightarrow>
      withdrawalRow h clients withdrawals si di ai mi line = Rejected
      \<and> withdrawalRowBatched h clients withdrawals si di ai mi line = Rejected
      \<and> depositRow h clients deposits si di ai mi line = Rejected
      \<and> orderRow h clients orders si di li ai sti line = Rejected
      \<and> agentRow h k1 k2 k3 ai line = Rejected"
    by (simp add: bad_amount_rows)
  show ?thesis
    using rows order_committed [of h clients orders csvData]
      deposit_committed [of h clients deposits csvData]
      withdrawal_committed [of h clients withdrawals csvData]
      withdrawalBatched_committed [of h clients withdrawals csvData]
      agent_committed [of h csvData]
    by (auto dest: ltZero_leZero)
qed

lemma amountCell_S2: "amountCell refHost ''S2,bad,-5,Unknown'' 2 = Num (- 5)"
  unfolding amountCell_def by (simp only: line_cells) (simp add: cell_defs)

theorem bad_amount_rejected_witness:
  "trim ''S2,bad,-5,Unknown'' \<noteq> []
   \<and> ltZero (amountCell refHost ''S2,bad,-5,Unknown'' 2)
   \<and> withdrawalRow refHost [] [] 0 1 2 3 ''S2,bad,-5,Unknown'' = Rejected
   \<and> depositRow refHost [] [] 0 1 2 3 ''S2,bad,-5,Unknown'' = Rejected
   \<and> processRows (withdrawalRow refHost [] [] 0 1 2 3) [''S2,bad,-5,Unknown''] 1 0 []
     = Finished 1 1 []
   \<and> committed (withdrawalImport refHost [] [] csvScenario)
     = [\<lparr> withdrawalId = ''WD00001'', withdrawal_shopId = Some ''S1'',
          withdrawal_clientName = ''Unknown Client'', withdrawal_agent = ''Unknown Agent'',
          withdrawal_date = ''2023-01-01'', withdrawal_amount = Num 100,
          withdrawal_paymentMode = Crypto \<rparr>]
   \<and> \<not> isNaN (Num 100) \<and> \<not> ltZero (Num 100)"
  using bad_amount_rejected [where line = "''S2,bad,-5,Unknown''" and h = refHost and ai = 2
          and clients = "[]" and withdrawals = "[]" and deposits = "[]" and si = 0 and di = 1
          and mi = 3 and rest = "[]" and s = 1 and e = 0 and wacc = "[]"
          and csvData = csvScenario]
        scenario_run(1) [of refHost "[]"]
  by (simp add: amountCell_S2 line_cells cell_defs scenarioRecord_def)

section \<open>Payment modes\<close>

lemma exact_label: "exactPaymentMode (Some (paymentModeLabel m)) = Some m"
  by (cases m) (simp_all add: exactPaymentMode_def)

lemma exact_is_label: "exactPaymentMode cell = Some m \<Longrightarrow> cell = Some (paymentModeLabel m)"
  by (auto simp: exactPaymentMode_def split: if_splits)

lemma synonyms_accepted:
  "\<forall>s \<in> set cryptoSynonyms. withdrawalPaymentMode (Some s) = Accepted Crypto"
  "\<forall>s \<in> set onlineBankingSynonyms. withdrawalPaymentMode (Some s) = Accepted OnlineBanking"
  "\<forall>s \<in> set ewalletSynonyms. withdrawalPaymentMode (Some s) = Accepted Ewallet"
  by code_simp+

lemma withdrawalCells_mode:
  "withdrawalCells h clients withdrawals si di ai mi cells = Accepted r
   \<Longrightarrow> withdrawalPaymentMode (cellAt cells mi) = Accepted (withdrawal_paymentMode r)"
  by (auto simp: withdrawalCells_def Let_def split: if_splits row_result.splits)

lemma depositRow_mode:
  "depositRow h clients deposits si di ai mi line = Accepted d
   \<Longrightarrow> cellAt (map trim (split (CHR '','') line)) mi = Some (paymentModeLabel (deposit_paymentMode d))"
  by (auto simp: depositRow_def Let_def split: if_splits option.splits dest: exact_is_label)

lemma depositRow_inexact:
  "trim line \<noteq> [] \<Longrightarrow> exactPaymentMode (cellAt (map trim (split (CHR '','') line)) mi) = None
   \<Longrightarrow> depositRow h clients deposits si di ai mi line = Rejected"
  by (simp add: depositRow_def Let_def split: option.splits)

lemma btc_cells:
  "trim ''S1,03/15/2025,100,btc'' \<noteq> []"
  "map trim (split (CHR '','') ''S1,03/15/2025,100,btc'') = [''S1'', ''03/15/2025'', ''100'', ''btc'']"
  "isoDateModel ''03/15/2025'' = None"
  by code_simp+

text \<open>
  Claim C7 as stated fails on the deposit flow, which has a payment-mode column and no
  synonym table: a deposit row whose payment mode is \<^verbatim>\<open>btc\<close> is rejected, where the
  withdrawal flow reads the same row as \<^verbatim>\<open>Crypto\<close>.
\<close>

theorem deposit_has_no_synonyms_counterexample:
  "depositRow refHost [clientS1] [] 0 1 2 3 ''S1,03/15/2025,100,btc'' = Rejected
   \<and> withdrawalRow refHost [clientS1] [] 0 1 2 3 ''S1,03/15/2025,100,btc''
     = Accepted \<lparr> withdrawalId = ''WD00001'', withdrawal_shopId = Some ''S1'',
         withdrawal_clientName = ''Alice'', withdrawal_agent = ''Bob'',
         withdrawal_date = ''2026-11-03'', withdrawal_amount = Num 100,
         withdrawal_paymentMode = Crypto \<rparr>"
proof -
  have "depositRow refHost [clientS1] [] 0 1 2 3 ''S1,03/15/2025,100,btc'' = Rejected"
    unfolding depositRow_def
    by (simp only: btc_cells if_False Let_def)
       (simp add: cell_defs clientS1_def exactPaymentMode_def)
  moreover have "withdrawalRow refHost [clientS1] [] 0 1 2 3 ''S1,03/15/2025,100,btc''
     = Accepted \<lparr> withdrawalId = ''WD00001'', withdrawal_shopId = Some ''S1'',
         withdrawal_clientName = ''Alice'', withdrawal_agent = ''Bob'',
         withdrawal_date = ''2026-11-03'', withdrawal_amount = Num 100,
         withdrawal_paymentMode = Crypto \<rparr>"
    unfolding withdrawalRow_def
    by (simp only: btc_cells if_False)
       (simp add: withdrawalCells_def cell_defs btc_cells clientS1_def)
  ultimately show ?thesis by simp
qed

text \<open>
  Claim C7, amended. In the two withdrawal flows the payment mode is matched exactly
  against the three labels first; failing that, the trimmed, lower-cased cell is looked
  up in the synonym lists; failing that, the row is rejected. A label and each of its
  synonyms give the same mode, which is the mode of the record. The deposit flow accepts
  the three exact labels only and rejects every other cell.
\<close>

theorem payment_mode_normalisation:
  "(exactPaymentMode cell = Some m \<longrightarrow> withdrawalPaymentMode cell = Accepted m)
   \<and> (exactPaymentMode (Some c) = None \<longrightarrow>
        withdrawalPaymentMode (Some c)
        = (if toLowerCase (trim c) \<in> set cryptoSynonyms then Accepted Crypto
           else if toLowerCase (trim c) \<in> set onlineBankingSynonyms then Accepted OnlineBanking
           else if toLowerCase (trim c) \<in> set ewalletSynonyms then Accepted Ewallet
           else Rejected))
   \<and> withdrawalPaymentMode (Some (paymentModeLabel m)) = Accepted m
   \<and> (\<forall>syn \<in> set (synonymsOf m).
        withdrawalPaymentMode (Some syn) = withdrawalPaymentMode (Some (paymentModeLabel m)))
   \<and> (withdrawalCells h clients withdrawals si di ai mi cells = Accepted r \<longrightarrow>
        withdrawalPaymentMode (cellAt cells mi) = Accepted (withdrawal_paymentMode r))
   \<and> (depositRow h clients deposits si di ai mi line = Accepted d \<longrightarrow>
        cellAt (map trim (split (CHR '','') line)) mi
        = Some (paymentModeLabel (deposit_paymentMode d)))
   \<and> (trim line \<noteq> [] \<and> exactPaymentMode (cellAt (map trim (split (CHR '','') line)) mi) = None
        \<longrightarrow> depositRow h clients deposits si di ai mi line = Rejected)"
proof -
  have a: "exactPaymentMode cell = Some m \<longrightarrow> withdrawalPaymentMode cell = Accepted m"
    by (simp add: withdrawalPaymentMode_def)
  have b: "exactPaymentMode (Some c) = None \<longrightarrow>
        withdrawalPaymentMode (Some c)
        = (if toLowerCase (trim c) \<in> set cryptoSynonyms then Accepted Crypto
           else if toLowerCase (trim c) \<in> set onlineBankingSynonyms then Accepted OnlineBanking
           else if toLowerCase (trim c) \<in> set ewalletSynonyms then Accepted Ewallet
           else Rejected)"
    by (simp add: withdrawalPaymentMode_def Let_def)
  have c: "withdrawalPaymentMode (Some (paymentModeLabel m)) = Accepted m"
    by (simp add: withdrawalPaymentMode_def exact_label)
  have d: "\<forall>syn \<in> set (synonymsOf m).
        withdrawalPaymentMode (Some syn) = withdrawalPaymentMode (Some (paymentModeLabel m))"
    using synonyms_accepted unfolding c by (cases m) simp_all
  have e: "withdrawalCells h clients withdrawals si di ai mi cells = Accepted r \<longrightarrow>
        withdrawalPaymentMode (cellAt cells mi) = Accepted (withdrawal_paymentMode r)"
    by (simp add: withdrawalCells_mode)
  have f: "depositRow h clients deposits si di ai mi line = Accepted d \<longrightarrow>
        cellAt (map trim (split (CHR '','') line)) mi
        = Some (paymentModeLabel (deposit_paymentMode d))"
    by (simp add: depositRow_mode)
  have g: "trim line \<noteq> [] \<and> exactPaymentMode (cellAt (map trim (split (CHR '','') line)) mi) = None
        \<longrightarrow> depositRow h clients deposits si di ai mi line = Rejected"
    by (simp add: depositRow_inexact)
  from a b c d e f g show ?thesis
    by (intro conjI)
qed

lemma mode_samples:
  "exactPaymentMode (Some ''Crypto'') = Some Crypto" "exactPaymentMode (Some ''btc'') = None"
  "''btc'' \<in> set (synonymsOf Crypto)"
  "cellAt [''S1'', ''03/15/2025'', ''100'', ''btc''] 3 = Some ''btc''"
  "cellAt [''S1'', ''2023-01-01'', ''100.00'', ''Crypto''] 3 = Some ''Crypto''"
  "cellAt [''S1'', ''03/15/2025'', ''100'', ''Crypto''] 3 = Some ''Crypto''"
  by code_simp+

theorem payment_mode_normalisation_witness:
  "exactPaymentMode (Some ''Crypto'') = Some Crypto
   \<and> withdrawalPaymentMode (Some ''Crypto'') = Accepted Crypto
   \<and> exactPaymentMode (Some ''btc'') = None
   \<and> ''btc'' \<in> set (synonymsOf Crypto)
   \<and> withdrawalPaymentMode (Some ''btc'') = withdrawalPaymentMode (Some (paymentModeLabel Crypto))
   \<and> withdrawalCells refHost [] [] 0 1 2 3 [''S1'', ''2023-01-01'', ''100.00'', ''Crypto'']
     = Accepted (scenarioRecord refHost [])
   \<and> withdrawalPaymentMode (cellAt [''S1'', ''2023-01-01'', ''100.00'', ''Crypto''] 3)
     = Accepted (withdrawal_paymentMode (scenarioRecord refHost []))
   \<and> trim ''S1,03/15/2025,100,btc'' \<noteq> []
   \<and> exactPaymentMode (cellAt (map trim (split (CHR '','') ''S1,03/15/2025,100,btc'')) 3) = None
   \<and> depositRow refHost [clientS1] [] 0 1 2 3 ''S1,03/15/2025,100,btc'' = Rejected"
proof -
  have w: "withdrawalCells refHost [] [] 0 1 2 3 [''S1'', ''2023-01-01'', ''100.00'', ''Crypto'']
     = Accepted (scenarioRecord refHost [])"
    by (rule scenario_rows) (simp_all add: cell_defs)
  have x: "exactPaymentMode (cellAt (map trim (split (CHR '','') ''S1,03/15/2025,100,btc'')) 3) = None"
    by (simp only: btc_cells mode_samples)
  note t = payment_mode_normalisation [where cell = "Some ''Crypto''" and m = Crypto
          and c = "''btc''" and line = "''S1,03/15/2025,100,btc''" and mi = 3 and h = refHost
          and clients = "[]" and deposits = "[]" and withdrawals = "[]" and si = 0 and di = 1
          and ai = 2 and r = "scenarioRecord refHost []"
          and cells = "[''S1'', ''2023-01-01'', ''100.00'', ''Crypto'']"
          and d = "undefined"]
  note u = payment_mode_normalisation [where cell = "Some ''Crypto''" and m = Crypto
          and c = "''btc''" and line = "''S1,03/15/2025,100,btc''" and mi = 3 and h = refHost
          and clients = "[clientS1]" and deposits = "[]" and withdrawals = "[]" and si = 0
          and di = 1 and ai = 2 and r = "scenarioRecord refHost []"
          and cells = "[''S1'', ''2023-01-01'', ''100.00'', ''Crypto'']"
          and d = "undefined"]
  have dep: "depositRow refHost [clientS1] [] 0 1 2 3 ''S1,03/15/2025,100,btc'' = Rejected"
    using u x btc_cells(1) by blast
  have syn: "withdrawalPaymentMode (Some ''btc'')
             = withdrawalPaymentMode (Some (paymentModeLabel Crypto))"
    using t mode_samples(3) by blast
  have rec: "withdrawalPaymentMode (cellAt [''S1'', ''2023-01-01'', ''100.00'', ''Crypto''] 3)
             = Accepted (withdrawal_paymentMode (scenarioRecord refHost []))"
    using t w by blast
  have lab: "withdrawalPaymentMode (Some ''Crypto'') = Accepted Crypto"
    using t mode_samples(1) by blast
  show ?thesis
    using dep syn rec lab w x btc_cells(1) mode_samples(1,2,3) by (intro conjI)
qed

section \<open>Dates\<close>

lemma withdrawalCells_date:
  "cellAt cells di = Some c \<Longrightarrow> newDate h c = None
   \<Longrightarrow> withdrawalCells h clients withdrawals si di ai mi cells = Accepted r
   \<Longrightarrow> withdrawal_date r = today h"
  by (auto simp: withdrawalCells_def Let_def split: if_splits row_result.splits)

lemma withdrawalCells_newDate:
  "verdict (withdrawalCells (h\<lparr>newDate := f\<rparr>) clients withdrawals si di ai mi cells)
   = verdict (withdrawalCells h clients withdrawals si di ai mi cells)"
  by (simp add: withdrawalCells_def Let_def verdict_simps generateWithdrawalId_def
           split: row_result.splits)

lemma depositRow_date:
  "cellAt (map trim (split (CHR '','') line)) di = Some c \<Longrightarrow> parseMDY h c = None
   \<Longrightarrow> depositRow h clients deposits si di ai mi line = Accepted d
   \<Longrightarrow> deposit_date d = today h"
  by (auto simp: depositRow_def Let_def split: if_splits option.splits)

lemma depositRow_parseMDY:
  "verdict (depositRow (h\<lparr>parseMDY := g\<rparr>) clients deposits si di ai mi line)
   = verdict (depositRow h clients deposits si di ai mi line)"
  by (simp add: depositRow_def Let_def verdict_simps split: option.splits)

lemma generateId_newDate:
  "generateOrderId (h\<lparr>newDate := f\<rparr>) orders = generateOrderId h orders"
  "generateWithdrawalId (h\<lparr>newDate := f\<rparr>) withdrawals = generateWithdrawalId h withdrawals"
  by (simp_all add: generateOrderId_def generateWithdrawalId_def)

lemma orderRow_newDate:
  "orderRow (h\<lparr>newDate := f\<rparr>) clients orders si di li ri sti line
   = orderRow h clients orders si di li ri sti line"
  by (simp add: orderRow_def Let_def generateId_newDate split: option.splits)

lemma orderRow_date:
  "orderRow h clients orders si di li ri sti line = Accepted ord
   \<Longrightarrow> order_date ord
       = (if cellAt (map trim (split (CHR '','') line)) di = Some [] then None
          else cellAt (map trim (split (CHR '','') line)) di)"
  by (auto simp: orderRow_def Let_def split: if_splits option.splits)

lemma order_bad_cells:
  "trim ''S1,bad,Paris,100,Pending'' \<noteq> []"
  "map trim (split (CHR '','') ''S1,bad,Paris,100,Pending'')
   = [''S1'', ''bad'', ''Paris'', ''100'', ''Pending'']"
  "trim ''S1,bad,100,Crypto'' \<noteq> []"
  "map trim (split (CHR '','') ''S1,bad,100,Crypto'') = [''S1'', ''bad'', ''100'', ''Crypto'']"
  by code_simp+

lemma orderRow_bad_date:
  "orderRow refHost [clientS1] [] 0 1 2 3 4 ''S1,bad,Paris,100,Pending''
   = Accepted \<lparr> orderId = ''OR00001'', order_shopId = Some ''S1'', order_clientName = ''Alice'',
       order_agent = ''Bob'', order_date = Some ''bad'', order_location = Some ''Paris'',
       order_price = Num 100, order_status = Pending \<rparr>"
  unfolding orderRow_def
  by (simp only: order_bad_cells if_False Let_def)
     (simp add: cell_defs clientS1_def exactOrderStatus_def)

lemma row_bad_date:
  "withdrawalRow refHost [clientS1] [] 0 1 2 3 ''S1,bad,100,Crypto''
   = Accepted \<lparr> withdrawalId = ''WD00001'', withdrawal_shopId = Some ''S1'',
       withdrawal_clientName = ''Alice'', withdrawal_agent = ''Bob'',
       withdrawal_date = ''2026-11-03'', withdrawal_amount = Num 100,
       withdrawal_paymentMode = Crypto \<rparr>"
  "depositRow refHost [clientS1] [] 0 1 2 3 ''S1,bad,100,Crypto''
   = Accepted \<lparr> depositId = ''DP00001'', deposit_shopId = Some ''S1'',
       deposit_clientName = ''Alice'', deposit_agent = ''Bob'',
       deposit_date = ''2026-11-03'', deposit_amount = Num 100,
       deposit_paymentMode = Crypto \<rparr>"
  unfolding withdrawalRow_def depositRow_def
  by (simp_all only: order_bad_cells if_False Let_def)
     (simp_all add: withdrawalCells_def cell_defs clientS1_def exactPaymentMode_def)

text \<open>
  Dates, flow by flow. In no flow does what a row comes to depend on how its date parses.
  In the withdrawal flows and the deposit flow a date cell that fails to parse is replaced
  by today's date on the record. The order flow, as written, never reads the date it
  parses: whatever the host's \<^verbatim>\<open>new Date\<close> says, the record carries the cell itself.
\<close>

lemma unparseable_date_defaults:
  "verdict (withdrawalRow (h\<lparr>newDate := f\<rparr>) clients withdrawals si di ai mi line)
     = verdict (withdrawalRow h clients withdrawals si di ai mi line)
   \<and> verdict (withdrawalRowBatched (h\<lparr>newDate := f\<rparr>) clients withdrawals si di ai mi line)
     = verdict (withdrawalRowBatched h clients withdrawals si di ai mi line)
   \<and> verdict (depositRow (h\<lparr>parseMDY := g\<rparr>) clients deposits si di ai mi line)
     = verdict (depositRow h clients deposits si di ai mi line)
   \<and> orderRow (h\<lparr>newDate := f\<rparr>) clients orders si di li ri sti line
     = orderRow h clients orders si di li ri sti line
   \<and> (cellAt (map trim (split (CHR '','') line)) di = Some c \<and> newDate h c = None
        \<and> (withdrawalRow h clients withdrawals si di ai mi line = Accepted w
            \<or> withdrawalRowBatched h clients withdrawals si di ai mi line = Accepted w)
      \<longrightarrow> withdrawal_date w = today h)
   \<and> (cellAt (map trim (split (CHR '','') line)) di = Some c \<and> parseMDY h c = None
        \<and> depositRow h clients deposits si di ai mi line = Accepted d
      \<longrightarrow> deposit_date d = today h)
   \<and> (orderRow h clients orders si di li ri sti line = Accepted ord
      \<longrightarrow> order_date ord
          = (if cellAt (map trim (split (CHR '','') line)) di = Some [] then None
             else cellAt (map trim (split (CHR '','') line)) di))"
proof -
  have a: "verdict (withdrawalRow (h\<lparr>newDate := f\<rparr>) clients withdrawals si di ai mi line)
     = verdict (withdrawalRow h clients withdrawals si di ai mi line)"
    by (simp add: withdrawalRow_def withdrawalCells_newDate)
  have b: "verdict (withdrawalRowBatched (h\<lparr>newDate := f\<rparr>) clients withdrawals si di ai mi line)
     = verdict (withdrawalRowBatched h clients withdrawals si di ai mi line)"
    by (simp add: withdrawalRowBatched_def Let_def withdrawalCells_newDate)
  have c: "cellAt (map trim (split (CHR '','') line)) di = Some c \<and> newDate h c = None
        \<and> (withdrawalRow h clients withdrawals si di ai mi line = Accepted w
            \<or> withdrawalRowBatched h clients withdrawals si di ai mi line = Accepted w)
      \<longrightarrow> withdrawal_date w = today h"
    using withdrawalCells_date [of "map trim (split (CHR '','') line)" di c h clients withdrawals
            si ai mi w]
    by (auto simp: withdrawalRow_def withdrawalRowBatched_def Let_def split: if_splits)
  have d: "cellAt (map trim (split (CHR '','') line)) di = Some c \<and> parseMDY h c = None
        \<and> depositRow h clients deposits si di ai mi line = Accepted d
      \<longrightarrow> deposit_date d = today h"
    using depositRow_date [of line di c h clients deposits si ai mi d] by blast
  have e: "orderRow h clients orders si di li ri sti line = Accepted ord
      \<longrightarrow> order_date ord
          = (if cellAt (map trim (split (CHR '','') line)) di = Some [] then None
             else cellAt (map trim (split (CHR '','') line)) di)"
    using orderRow_date [of h clients orders si di li ri sti line ord] by blast
  from a b depositRow_parseMDY orderRow_newDate c d e show ?thesis
    by (intro conjI)
qed

lemma unparseable_date_defaults_witness:
  "cellAt (map trim (split (CHR '','') ''S1,bad,100,Crypto'')) 1 = Some ''bad''
   \<and> newDate refHost ''bad'' = None \<and> parseMDY refHost ''bad'' = None
   \<and> withdrawalRow refHost [clientS1] [] 0 1 2 3 ''S1,bad,100,Crypto''
     = Accepted \<lparr> withdrawalId = ''WD00001'', withdrawal_shopId = Some ''S1'',
         withdrawal_clientName = ''Alice'', withdrawal_agent = ''Bob'',
         withdrawal_date = ''2026-11-03'', withdrawal_amount = Num 100,
         withdrawal_paymentMode = Crypto \<rparr>
   \<and> withdrawal_date \<lparr> withdrawalId = ''WD00001'', withdrawal_shopId = Some ''S1'',
         withdrawal_clientName = ''Alice'', withdrawal_agent = ''Bob'',
         withdrawal_date = ''2026-11-03'', withdrawal_amount = Num 100,
         withdrawal_paymentMode = Crypto \<rparr> = today refHost
   \<and> depositRow refHost [clientS1] [] 0 1 2 3 ''S1,bad,100,Crypto''
     = Accepted \<lparr> depositId = ''DP00001'', deposit_shopId = Some ''S1'',
         deposit_clientName = ''Alice'', deposit_agent = ''Bob'',
         deposit_date = ''2026-11-03'', deposit_amount = Num 100,
         deposit_paymentMode = Crypto \<rparr>
   \<and> deposit_date \<lparr> depositId = ''DP00001'', deposit_shopId = Some ''S1'',
         deposit_clientName = ''Alice'', deposit_agent = ''Bob'',
         deposit_date = ''2026-11-03'', deposit_amount = Num 100,
         deposit_paymentMode = Crypto \<rparr> = today refHost"
proof -
  have cell: "cellAt (map trim (split (CHR '','') ''S1,bad,100,Crypto'')) 1 = Some ''bad''"
    by (simp only: order_bad_cells) (simp add: cellAt_def)
  have nd: "newDate refHost ''bad'' = None" "parseMDY refHost ''bad'' = None"
    by (simp_all add: cell_defs)
  note t = unparseable_date_defaults [where h = refHost and clients = "[clientS1]"
      and withdrawals = "[]" and deposits = "[]" and si = 0 and di = 1 and ai = 2 and mi = 3
      and line = "''S1,bad,100,Crypto''" and c = "''bad''"]
  have w: "withdrawal_date \<lparr> withdrawalId = ''WD00001'', withdrawal_shopId = Some ''S1'',
         withdrawal_clientName = ''Alice'', withdrawal_agent = ''Bob'',
         withdrawal_date = ''2026-11-03'', withdrawal_amount = Num 100,
         withdrawal_paymentMode = Crypto \<rparr> = today refHost"
    using t cell nd row_bad_date(1) by blast
  have d: "deposit_date \<lparr> depositId = ''DP00001'', deposit_shopId = Some ''S1'',
         deposit_clientName = ''Alice'', deposit_agent = ''Bob'',
         deposit_date = ''2026-11-03'', deposit_amount = Num 100,
         deposit_paymentMode = Crypto \<rparr> = today refHost"
    using t cell nd row_bad_date(2) by blast
  from cell nd row_bad_date(1) w row_bad_date(2) d show ?thesis
    by (intro conjI)
qed

section \<open>Identifier generation: proofs\<close>



























section \<open>Counts of a well-formed import\<close>

lemma indexOf_bounds: "x \<in> set xs \<Longrightarrow> 0 \<le> indexOf xs x \<and> indexOf xs x < int (length xs)"
  by (induction xs) (auto simp: Let_def)

lemma required_present:
  "missingFields req csvData = [] \<Longrightarrow> f \<in> set req \<Longrightarrow> f \<in> set (csvHeader csvData)"
  by (auto simp: missingFields_def filter_empty_conv)

lemma withdrawalPaymentMode_defined: "withdrawalPaymentMode (Some c) \<noteq> Threw"
  by (simp add: withdrawalPaymentMode_def Let_def split: option.splits)

lemma withdrawalCells_no_throw:
  "cellAt cells mi \<noteq> None \<Longrightarrow> withdrawalCells h clients withdrawals si di ai mi cells \<noteq> Threw"
  using withdrawalPaymentMode_defined
  by (auto simp: withdrawalCells_def Let_def split: row_result.splits)

lemma withdrawalRowBatched_short:
  "trim line \<noteq> [] \<Longrightarrow> length (split (CHR '','') line) < 4
   \<Longrightarrow> withdrawalRowBatched h clients withdrawals si di ai mi line = Rejected"
  by (simp add: withdrawalRowBatched_def Let_def)

lemma withdrawalRowBatched_no_throw:
  "0 \<le> mi \<Longrightarrow> mi < 4 \<Longrightarrow> withdrawalRowBatched h clients withdrawals si di ai mi line \<noteq> Threw"
  using withdrawalCells_no_throw [of "map trim (split (CHR '','') line)" mi]
  by (auto simp: withdrawalRowBatched_def Let_def cellAt_def)

text \<open>
  The batched withdrawal import on a well-formed input whose header has at most four
  columns: no row raises, and with \<open>N\<close> data rows of which \<open>V\<close> are accepted the outcome is
  \<open>V\<close> successes, \<open>N - V\<close> errors and the \<open>V\<close> records in batches.
\<close>

lemma withdrawalImportBatched_counts:
  fixes h :: host and clients :: "Client list" and withdrawals :: "Withdrawal list"
    and csvData :: string
  assumes "2 \<le> length (csvLines csvData)"
    and "missingFields withdrawalRequiredFields csvData = []"
    and "length (csvHeader csvData) \<le> 4"
  defines "header \<equiv> csvHeader csvData"
  defines "row \<equiv> withdrawalRowBatched h clients withdrawals (indexOf header ''shop id'')
                    (indexOf header ''date'') (indexOf header ''amount'')
                    (indexOf header ''payment mode'')"
  defines "rows \<equiv> tl (csvLines csvData)"
  shows "withdrawalImportBatched h clients withdrawals csvData
         = Imported (length (acceptedRecords row rows))
             (length (dataRows rows) - length (acceptedRecords row rows))
             (commitBatches (acceptedRecords row rows))"
proof -
  have "''payment mode'' \<in> set header"
    using required_present [OF assms(2), of "''payment mode''"]
    by (simp add: header_def withdrawalRequiredFields_def)
  from indexOf_bounds [OF this] assms(3)
  have ix: "0 \<le> indexOf header ''payment mode''" "indexOf header ''payment mode'' < 4"
    by (simp_all add: header_def)
  have nt: "\<forall>l \<in> set rows. row l \<noteq> Threw"
    by (simp add: row_def withdrawalRowBatched_no_throw [OF ix])
  have bl: "\<forall>l \<in> set rows. row l = Blank \<longleftrightarrow> trim l = []"
    by (simp add: row_def withdrawalRowBatched_Blank)
  have "length (dataRows rows) - length (acceptedRecords row rows) = length (rejectedRows row rows)"
    using rows_partition [OF nt bl] by simp
  then show ?thesis
    using parseCsv_ok [OF assms(1,2)] processRows_no_throw [OF nt, of 0 0 "[]"]
    by (simp add: withdrawalImportBatched_def header_def row_def rows_def)
qed

lemma csvScenario_eval:
  "length (csvLines csvScenario) = 3"
  "missingFields withdrawalRequiredFields csvScenario = []"
  "length (csvHeader csvScenario) = 4"
  "length (dataRows (tl (csvLines csvScenario))) = 2"
  by code_simp+

lemma withdrawalImportBatched_counts_witness:
  "2 \<le> length (csvLines csvScenario)
   \<and> missingFields withdrawalRequiredFields csvScenario = []
   \<and> length (csvHeader csvScenario) \<le> 4
   \<and> length (dataRows (tl (csvLines csvScenario))) = 2
   \<and> withdrawalImportBatched refHost [] [] csvScenario
     = Imported 1 (2 - 1) [[scenarioRecord refHost []]]"
proof -
  have run: "withdrawalImportBatched refHost [] [] csvScenario
             = Imported 1 1 [[scenarioRecord refHost []]]"
    by (rule scenario_run) (simp_all add: cell_defs)
  show ?thesis
    using withdrawalImportBatched_counts [of csvScenario refHost "[]" "[]"] run
    by (simp add: csvScenario_eval)
qed

lemma csvBlankLine_eval:
  "length (csvLines csvBlankLine) = 4"
  "missingFields depositRequiredFields csvBlankLine = []"
  "length (dataRows (tl (csvLines csvBlankLine))) = 2"
  by code_simp+

lemma depositImport_counts_witness:
  "2 \<le> length (csvLines csvBlankLine)
   \<and> missingFields depositRequiredFields csvBlankLine = []
   \<and> length (dataRows (tl (csvLines csvBlankLine))) = 2
   \<and> depositImport refHost [clientS1] [] csvBlankLine
     = Imported 1 (2 - 1)
         [\<lparr> depositId = ''DP00001'', deposit_shopId = Some ''S1'',
            deposit_clientName = ''Alice'', deposit_agent = ''Bob'',
            deposit_date = ''2025-03-15'', deposit_amount = Num 100,
            deposit_paymentMode = Crypto \<rparr>]"
  using depositImport_counts [of csvBlankLine refHost "[clientS1]" "[]"] depositImport_blank_run
  by (simp add: csvBlankLine_eval)

lemma csvOrders_eval:
  "length (csvLines csvOrders) = 3"
  "missingFields orderRequiredFields csvOrders = []"
  "length (dataRows (tl (csvLines csvOrders))) = 2"
  "parseCsv orderRequiredFields csvOrders
   = Inr ([''shop id'', ''date'', ''location'', ''price'', ''status''],
          [''S1,bad,Paris,100,Pending'', ''S1,2023-01-01,Rome,-3,Pending''])"
  "indexOf [''shop id'', ''date'', ''location'', ''price'', ''status''] ''shop id'' = 0"
  "indexOf [''shop id'', ''date'', ''location'', ''price'', ''status''] ''date'' = 1"
  "indexOf [''shop id'', ''date'', ''location'', ''price'', ''status''] ''location'' = 2"
  "indexOf [''shop id'', ''date'', ''location'', ''price'', ''status''] ''price'' = 3"
  "indexOf [''shop id'', ''date'', ''location'', ''price'', ''status''] ''status'' = 4"
  "trim ''S1,2023-01-01,Rome,-3,Pending'' \<noteq> []"
  "map trim (split (CHR '','') ''S1,2023-01-01,Rome,-3,Pending'')
   = [''S1'', ''2023-01-01'', ''Rome'', ''-3'', ''Pending'']"
  by code_simp+

lemma orderRow_negative:
  "orderRow refHost [clientS1] [] 0 1 2 3 4 ''S1,2023-01-01,Rome,-3,Pending'' = Rejected"
proof -
  have "parseFloatModel ''-3'' = Num (- 3)"
    by (simp add: parseFloatModel_def signOf_def isSpace_def isDigit_def digitsValue_def
          digitValue_def exponentOf_def)
  then show ?thesis
    unfolding orderRow_def
    by (simp only: csvOrders_eval if_False Let_def) (simp add: cell_defs clientS1_def)
qed

lemma orderImport_run:
  "orderImport refHost [clientS1] [] csvOrders
   = Imported 1 1
       [\<lparr> orderId = ''OR00001'', order_shopId = Some ''S1'', order_clientName = ''Alice'',
          order_agent = ''Bob'', order_date = Some ''bad'', order_location = Some ''Paris'',
          order_price = Num 100, order_status = Pending \<rparr>]"
  by (simp add: orderImport_def csvOrders_eval orderRow_bad_date orderRow_negative)

lemma orderImport_counts_witness:
  "2 \<le> length (csvLines csvOrders)
   \<and> missingFields orderRequiredFields csvOrders = []
   \<and> length (dataRows (tl (csvLines csvOrders))) = 2
   \<and> orderImport refHost [clientS1] [] csvOrders
     = Imported 1 (2 - 1)
         [\<lparr> orderId = ''OR00001'', order_shopId = Some ''S1'', order_clientName = ''Alice'',
            order_agent = ''Bob'', order_date = Some ''bad'', order_location = Some ''Paris'',
            order_price = Num 100, order_status = Pending \<rparr>]"
  using orderImport_counts [of csvOrders refHost "[clientS1]" "[]"] orderImport_run
  by (simp add: csvOrders_eval)

section \<open>The batched import\<close>

lemma parseCsv_Inr:
  "parseCsv req csvData = Inr p \<Longrightarrow> p = (csvHeader csvData, tl (csvLines csvData))"
  by (auto simp: parseCsv_def split: if_splits)

lemma processRows_Finished:
  "processRows row ls s0 e0 acc = Finished s e all
   \<Longrightarrow> all = acc @ acceptedRecords row ls \<and> s = s0 + length (acceptedRecords row ls)"
proof (induction ls arbitrary: s0 e0 acc)
  case Nil
  then show ?case by simp
next
  case (Cons l ls)
  show ?case
  proof (cases "row l")
    case Blank
    with Cons.prems Cons.IH [of s0 e0 acc] show ?thesis by simp
  next
    case Rejected
    with Cons.prems Cons.IH [of s0 "e0 + 1" acc] show ?thesis by simp
  next
    case (Accepted r)
    with Cons.prems Cons.IH [of "s0 + 1" e0 "acc @ [r]"] show ?thesis by simp
  next
    case Threw
    with Cons.prems show ?thesis by simp
  qed
qed

lemma processRows_replicate:
  "row l = Accepted r
   \<Longrightarrow> processRows row (replicate n l) s e acc = Finished (s + n) e (acc @ replicate n r)"
proof (induction n arbitrary: s acc)
  case 0
  show ?case by simp
next
  case (Suc n)
  from Suc.IH [OF Suc.prems, of "s + 1" "acc @ [r]"] Suc.prems show ?case
    by (simp add: replicate_append_same)
qed

lemma split_no_separator: "c \<notin> set s \<Longrightarrow> split c s = [s]"
  by (induction s) auto

lemma split_at_separator: "c \<notin> set a \<Longrightarrow> split c (a @ c # rest) = a # split c rest"
  by (induction a) auto

lemma split_repeated:
  "c \<notin> set a \<Longrightarrow> c \<notin> set l
   \<Longrightarrow> split c (a @ concat (replicate n (c # l))) = a # replicate n l"
proof (induction n arbitrary: a)
  case 0
  then show ?case by (simp add: split_no_separator)
next
  case (Suc n)
  from Suc.IH [of l] Suc.prems show ?case
    by (simp add: split_at_separator)
qed

lemma trim_unchanged:
  "s \<noteq> [] \<Longrightarrow> \<not> isSpace (hd s) \<Longrightarrow> \<not> isSpace (last s) \<Longrightarrow> trim s = s"
proof -
  assume s: "s \<noteq> []" and h: "\<not> isSpace (hd s)" and l: "\<not> isSpace (last s)"
  from s h have a: "dropWhile isSpace s = s"
    by (cases s) simp_all
  from s l have "dropWhile isSpace (rev s) = rev s"
    by (cases "rev s") (simp_all add: last_rev [symmetric] del: last_rev)
  with a show ?thesis by (simp add: trim_def)
qed

lemma csvThousand_lines:
  "csvLines csvThousand
   = ''shop id,date,amount,payment mode'' # replicate 1000 ''S1,2023-01-01,100.00,Crypto''"
proof -
  have "(1000::nat) = Suc 999" by simp
  then have rep: "replicate 1000 x = replicate 999 x @ [x]" for x :: string
    by (simp only: replicate_Suc replicate_append_same)
  have ne: "csvThousand \<noteq> []" and hd: "hd csvThousand = CHR ''s''"
    by (simp_all add: csvThousand_def)
  have la: "last csvThousand = CHR ''o''"
    by (simp add: csvThousand_def rep)
  have "trim csvThousand = csvThousand"
    using ne by (rule trim_unchanged) (simp_all add: hd la isSpace_def)
  moreover have "split (CHR 0x0A) csvThousand
      = ''shop id,date,amount,payment mode'' # replicate 1000 ''S1,2023-01-01,100.00,Crypto''"
    unfolding csvThousand_def by (rule split_repeated) simp_all
  ultimately show ?thesis by (simp add: csvLines_def)
qed

lemma csvThousand_wf:
  "csvHeader csvThousand = [''shop id'', ''date'', ''amount'', ''payment mode'']"
  "missingFields withdrawalRequiredFields csvThousand = []"
  "2 \<le> length (csvLines csvThousand)"
proof -
  have h: "map (\<lambda>h. toLowerCase (trim h)) (split (CHR '','') ''shop id,date,amount,payment mode'')
           = [''shop id'', ''date'', ''amount'', ''payment mode'']"
    by code_simp
  show hdr: "csvHeader csvThousand = [''shop id'', ''date'', ''amount'', ''payment mode'']"
    by (simp only: csvHeader_def csvThousand_lines list.sel h)
  show "missingFields withdrawalRequiredFields csvThousand = []"
    by (simp add: missingFields_def hdr withdrawalRequiredFields_def)
  show "2 \<le> length (csvLines csvThousand)"
    by (simp add: csvThousand_lines)
qed

lemma csvThousand_parse:
  "parseCsv withdrawalRequiredFields csvThousand
   = Inr ([''shop id'', ''date'', ''amount'', ''payment mode''],
          replicate 1000 ''S1,2023-01-01,100.00,Crypto'')"
  using parseCsv_ok [OF csvThousand_wf(3,2)]
  by (simp add: csvThousand_wf(1) csvThousand_lines)

lemma scenario_row_batched:
  assumes "parseFloat h ''100.00'' = Num 100" and "parseFloat h ''-5'' = Num (- 5)"
  shows "withdrawalRowBatched h [] withdrawals 0 1 2 3 ''S1,2023-01-01,100.00,Crypto''
         = Accepted (scenarioRecord h withdrawals)"
  unfolding withdrawalRowBatched_def
  by (simp only: line_cells if_False Let_def scenario_rows [OF assms]) simp

lemma csvThousand_run:
  "withdrawalImportBatched refHost [] [] csvThousand
   = Imported 1000 0 (commitBatches (replicate 1000 (scenarioRecord refHost [])))"
proof -
  have row: "withdrawalRowBatched refHost [] [] 0 1 2 3 ''S1,2023-01-01,100.00,Crypto''
         = Accepted (scenarioRecord refHost [])"
    by (rule scenario_row_batched) (simp_all add: cell_defs)
  show ?thesis
    using processRows_replicate [where row = "withdrawalRowBatched refHost [] [] 0 1 2 3"
            and l = "''S1,2023-01-01,100.00,Crypto''" and r = "scenarioRecord refHost []"
            and n = 1000 and s = 0 and e = 0 and acc = "[]"] row
    by (simp add: withdrawalImportBatched_def csvThousand_parse header4_index)
qed

text \<open>
  Claim C3. Every batch handed to \<^verbatim>\<open>batch.commit()\<close> holds at most 450 records (and at
  least one); the batches, in the order committed, are consecutive pieces of the list of
  valid records; for 1000 valid records they are three, of sizes 450, 450 and 100. For the
  batched withdrawal import itself: when it completes with \<open>s\<close> successes, the batches it
  committed, joined in order, are exactly the records of the accepted rows, \<open>s\<close> of them,
  none of the batches is empty or longer than 450, and for \<open>s = 1000\<close> they are three, of
  sizes 450, 450 and 100. And it does complete, committing those batches, on every
  well-formed input none of whose rows raises.
\<close>

theorem batch_commit_chunks:
  "(\<forall>b \<in> set (commitBatches all). length b \<le> 450 \<and> b \<noteq> [])
   \<and> concat (commitBatches all) = all
   \<and> (length all = 1000 \<longrightarrow> map length (commitBatches all) = [450, 450, 100])
   \<and> (\<forall>b \<in> set (committed (withdrawalImportBatched h clients withdrawals csvData)).
          length b \<le> 450)
   \<and> (withdrawalImportBatched h clients withdrawals csvData = Imported s e bs \<longrightarrow>
        concat bs
          = acceptedRecords
              (withdrawalRowBatched h clients withdrawals
                 (indexOf (csvHeader csvData) ''shop id'') (indexOf (csvHeader csvData) ''date'')
                 (indexOf (csvHeader csvData) ''amount'')
                 (indexOf (csvHeader csvData) ''payment mode''))
              (tl (csvLines csvData))
        \<and> length (concat bs) = s
        \<and> (\<forall>b \<in> set bs. length b \<le> 450 \<and> b \<noteq> [])
        \<and> (s = 1000 \<longrightarrow> map length bs = [450, 450, 100]))
   \<and> (2 \<le> length (csvLines csvData)
        \<and> missingFields withdrawalRequiredFields csvData = []
        \<and> (\<forall>l \<in> set (tl (csvLines csvData)).
               withdrawalRowBatched h clients withdrawals
                 (indexOf (csvHeader csvData) ''shop id'') (indexOf (csvHeader csvData) ''date'')
                 (indexOf (csvHeader csvData) ''amount'')
                 (indexOf (csvHeader csvData) ''payment mode'') l \<noteq> Threw)
      \<longrightarrow> withdrawalImportBatched h clients withdrawals csvData
          = Imported
              (length (acceptedRecords
                 (withdrawalRowBatched h clients withdrawals
                 (indexOf (csvHeader csvData) ''shop id'') (indexOf (csvHeader csvData) ''date'')
                 (indexOf (csvHeader csvData) ''amount'')
                 (indexOf (csvHeader csvData) ''payment mode''))
                 (tl (csvLines csvData))))
              (length (rejectedRows
                 (withdrawalRowBatched h clients withdrawals
                 (indexOf (csvHeader csvData) ''shop id'') (indexOf (csvHeader csvData) ''date'')
                 (indexOf (csvHeader csvData) ''amount'')
                 (indexOf (csvHeader csvData) ''payment mode''))
                 (tl (csvLines csvData))))
              (commitBatches (acceptedRecords
                 (withdrawalRowBatched h clients withdrawals
                 (indexOf (csvHeader csvData) ''shop id'') (indexOf (csvHeader csvData) ''date'')
                 (indexOf (csvHeader csvData) ''amount'')
                 (indexOf (csvHeader csvData) ''payment mode''))
                 (tl (csvLines csvData)))))"
proof -
  have imp: "\<forall>b \<in> set (committed (withdrawalImportBatched h clients withdrawals csvData)).
          length b \<le> 450"
    using batchesFrom_bounded [of 0]
    by (auto simp: withdrawalImportBatched_def commitBatches_def BATCH_SIZE_def
             split: sum.splits run.splits)
  have bound: "\<forall>b \<in> set (commitBatches xs). length b \<le> 450 \<and> b \<noteq> []" for xs :: "'b list"
    using batchesFrom_bounded [of 0 xs] batchesFrom_nonempty [of 0 xs]
    by (simp add: commitBatches_def BATCH_SIZE_def)
  have cat: "concat (commitBatches xs) = xs" for xs :: "'b list"
    by (simp add: commitBatches_def batchesFrom_concat)
  have thousand: "length xs = 1000 \<longrightarrow> map length (commitBatches xs) = [450, 450, 100]"
    for xs :: "'b list"
    by (simp add: commitBatches_def batches_1000)
  let ?row = "withdrawalRowBatched h clients withdrawals
                 (indexOf (csvHeader csvData) ''shop id'') (indexOf (csvHeader csvData) ''date'')
                 (indexOf (csvHeader csvData) ''amount'')
                 (indexOf (csvHeader csvData) ''payment mode'')"
  let ?rows = "tl (csvLines csvData)"
  have run: "concat bs = acceptedRecords ?row ?rows
        \<and> length (concat bs) = s
        \<and> (\<forall>b \<in> set bs. length b \<le> 450 \<and> b \<noteq> [])
        \<and> (s = 1000 \<longrightarrow> map length bs = [450, 450, 100])"
    if imported: "withdrawalImportBatched h clients withdrawals csvData = Imported s e bs"
  proof -
    from imported obtain p where p: "parseCsv withdrawalRequiredFields csvData = Inr p"
      by (cases "parseCsv withdrawalRequiredFields csvData")
         (simp_all add: withdrawalImportBatched_def)
    from parseCsv_Inr [OF p] have p': "parseCsv withdrawalRequiredFields csvData
        = Inr (csvHeader csvData, ?rows)"
      using p by simp
    from imported p' obtain all' where fin: "processRows ?row ?rows 0 0 [] = Finished s e all'"
      and bs: "bs = commitBatches all'"
      by (cases "processRows ?row ?rows 0 0 []") (simp_all add: withdrawalImportBatched_def)
    from processRows_Finished [OF fin]
    have all': "all' = acceptedRecords ?row ?rows" and s: "s = length all'"
      by simp_all
    show ?thesis
      using bound [of all'] cat [of all'] thousand [of all'] all' s bs by simp
  qed
  have complete: "withdrawalImportBatched h clients withdrawals csvData
          = Imported (length (acceptedRecords ?row ?rows)) (length (rejectedRows ?row ?rows))
              (commitBatches (acceptedRecords ?row ?rows))"
    if wf: "2 \<le> length (csvLines csvData)"
      "missingFields withdrawalRequiredFields csvData = []"
      and nt: "\<forall>l \<in> set ?rows. ?row l \<noteq> Threw"
    using parseCsv_ok [OF wf] processRows_no_throw [OF nt, of 0 0 "[]"]
    by (simp add: withdrawalImportBatched_def)
  show ?thesis
    using imp bound [of all] cat [of all] thousand [of all] run complete by blast
qed

theorem batch_commit_chunks_witness:
  "length (replicate 1000 (0::nat)) = 1000
   \<and> map length (commitBatches (replicate 1000 (0::nat))) = [450, 450, 100]
   \<and> concat (commitBatches (replicate 1000 (0::nat))) = replicate 1000 0
   \<and> 2 \<le> length (csvLines csvThousand)
   \<and> missingFields withdrawalRequiredFields csvThousand = []
   \<and> withdrawalImportBatched refHost [] [] csvThousand
     = Imported 1000 0 (commitBatches (replicate 1000 (scenarioRecord refHost [])))
   \<and> map length (commitBatches (replicate 1000 (scenarioRecord refHost []))) = [450, 450, 100]
   \<and> concat (commitBatches (replicate 1000 (scenarioRecord refHost [])))
     = replicate 1000 (scenarioRecord refHost [])"
proof -
  note t = batch_commit_chunks [where h = refHost and clients = "[]" and withdrawals = "[]"
      and csvData = csvThousand and s = 1000 and e = 0
      and bs = "commitBatches (replicate 1000 (scenarioRecord refHost []))"
      and all = "replicate 1000 (scenarioRecord refHost [])"]
  have a: "map length (commitBatches (replicate 1000 (scenarioRecord refHost []))) = [450, 450, 100]"
    using t csvThousand_run by blast
  have b: "concat (commitBatches (replicate 1000 (scenarioRecord refHost [])))
     = replicate 1000 (scenarioRecord refHost [])"
    using t by blast
  show ?thesis
    using batch_commit_chunks [of "replicate 1000 (0::nat)"] a b csvThousand_run
      csvThousand_wf(2,3)
    by simp
qed

section \<open>The order flow and unparseable dates\<close>

text \<open>
  Claim C8 (not met by the order flow). On \<open>csvOrders\<close> the first row has the date cell
  \<^verbatim>\<open>bad\<close>, which does not parse. The order import accepts the row, as the claim says, but
  substitutes nothing: under its comment \<^verbatim>\<open>Validate and parse date\<close> it computes
  \<^verbatim>\<open>new Date(orderDate)\<close> and never reads the result, so the order handed to the store
  carries the date \<^verbatim>\<open>bad\<close> and not today's date. The withdrawal and deposit flows, on a row
  with the same date cell, put today's date on the record.
\<close>

theorem order_import_keeps_unparseable_date:
  "newDate refHost ''bad'' = None
   \<and> today refHost = ''2026-11-03''
   \<and> orderImport refHost [clientS1] [] csvOrders
     = Imported 1 1
         [\<lparr> orderId = ''OR00001'', order_shopId = Some ''S1'', order_clientName = ''Alice'',
            order_agent = ''Bob'', order_date = Some ''bad'', order_location = Some ''Paris'',
            order_price = Num 100, order_status = Pending \<rparr>]
   \<and> withdrawalRow refHost [clientS1] [] 0 1 2 3 ''S1,bad,100,Crypto''
     = Accepted \<lparr> withdrawalId = ''WD00001'', withdrawal_shopId = Some ''S1'',
         withdrawal_clientName = ''Alice'', withdrawal_agent = ''Bob'',
         withdrawal_date = ''2026-11-03'', withdrawal_amount = Num 100,
         withdrawal_paymentMode = Crypto \<rparr>
   \<and> depositRow refHost [clientS1] [] 0 1 2 3 ''S1,bad,100,Crypto''
     = Accepted \<lparr> depositId = ''DP00001'', deposit_shopId = Some ''S1'',
         deposit_clientName = ''Alice'', deposit_agent = ''Bob'',
         deposit_date = ''2026-11-03'', deposit_amount = Num 100,
         deposit_paymentMode = Crypto \<rparr>"
  by (simp add: orderImport_run row_bad_date cell_defs)

end
